theory Spec2Isabelle
  imports Main
begin

section \<open>The DOM as the widget sees it\<close>

text \<open>
  The widget of \<^verbatim>\<open>iconLabel.ts\<close> owns a handful of DOM elements and assigns to a fixed
  set of their properties. An element is a record of exactly those properties. Every
  assignment the code makes to an element is also appended to the element's own list
  \<open>writes\<close>, the spy on its write points: two element values are equal only when the
  same assignments were made to them, in the same order. The code assigns
  \<^verbatim>\<open>textContent\<close> on the label and the description only and \<^verbatim>\<open>innerHTML\<close> on the badge
  only, so the two are kept as separate properties. An element knows its children by
  their identities.
\<close>

datatype dom_write =
    W_className string
  | W_textContent string
  | W_innerHTML string
  | W_title string
  | W_marginLeft "string option"
  | W_color string
  | W_backgroundColor string
  | W_display string
  | W_appendChild nat

text \<open>
  A registered event listener: the identity of the function object that was registered,
  the event type, and the callback that function calls.
\<close>

record listener =
  l_function :: nat
  l_type :: string
  l_callback :: nat

record element =
  uid :: nat
  tagName :: string
  className :: string
  textContent :: string
  innerHTML :: string
  title :: string
  style_marginLeft :: string
  style_color :: string
  style_backgroundColor :: string
  style_display :: string
  childNodes :: "nat list"
  listeners :: "listener list"
  writes :: "dom_write list"

text \<open>
  The allocation state of the page: how many elements \<^verbatim>\<open>document.createElement\<close> has
  made, and how many function objects have been created for listeners. Both only serve
  to give fresh identities.
\<close>

record runtime =
  elementsCreated :: nat
  functionsCreated :: nat

definition createElement :: "string \<Rightarrow> runtime \<Rightarrow> element \<times> runtime" where
  "createElement tag rt =
     (\<lparr> uid = elementsCreated rt, tagName = tag, className = '''', textContent = '''',
         innerHTML = '''', title = '''', style_marginLeft = '''', style_color = '''',
         style_backgroundColor = '''', style_display = '''', childNodes = [],
         listeners = [], writes = [] \<rparr>,
      rt\<lparr> elementsCreated := Suc (elementsCreated rt) \<rparr>)"

text \<open>Assignments to element properties, one definition per property the code assigns.\<close>

definition assign_className :: "string \<Rightarrow> element \<Rightarrow> element" where
  "assign_className v e = e\<lparr> className := v, writes := writes e @ [W_className v] \<rparr>"

definition assign_textContent :: "string \<Rightarrow> element \<Rightarrow> element" where
  "assign_textContent v e = e\<lparr> textContent := v, writes := writes e @ [W_textContent v] \<rparr>"

definition assign_innerHTML :: "string \<Rightarrow> element \<Rightarrow> element" where
  "assign_innerHTML v e = e\<lparr> innerHTML := v, writes := writes e @ [W_innerHTML v] \<rparr>"

definition assign_title :: "string \<Rightarrow> element \<Rightarrow> element" where
  "assign_title v e = e\<lparr> title := v, writes := writes e @ [W_title v] \<rparr>"

text \<open>
  \<^verbatim>\<open>style.marginLeft = null\<close> removes the declaration: the property reads back as the
  empty string.
\<close>

definition assign_marginLeft :: "string option \<Rightarrow> element \<Rightarrow> element" where
  "assign_marginLeft v e =
     e\<lparr> style_marginLeft := (case v of None \<Rightarrow> '''' | Some s \<Rightarrow> s),
        writes := writes e @ [W_marginLeft v] \<rparr>"

definition assign_color :: "string \<Rightarrow> element \<Rightarrow> element" where
  "assign_color v e = e\<lparr> style_color := v, writes := writes e @ [W_color v] \<rparr>"

definition assign_backgroundColor :: "string \<Rightarrow> element \<Rightarrow> element" where
  "assign_backgroundColor v e =
     e\<lparr> style_backgroundColor := v, writes := writes e @ [W_backgroundColor v] \<rparr>"

definition assign_display :: "string \<Rightarrow> element \<Rightarrow> element" where
  "assign_display v e = e\<lparr> style_display := v, writes := writes e @ [W_display v] \<rparr>"

definition appendChild :: "element \<Rightarrow> element \<Rightarrow> element" where
  "appendChild child e =
     e\<lparr> childNodes := childNodes e @ [uid child], writes := writes e @ [W_appendChild (uid child)] \<rparr>"

section \<open>FastLabelNode\<close>

text \<open>
  The private fields of \<^verbatim>\<open>FastLabelNode\<close>. The constructor leaves \<^verbatim>\<open>disposed\<close> and the
  four caches \<^verbatim>\<open>undefined\<close>: \<open>disposed\<close> is only tested for truth, so \<^verbatim>\<open>undefined\<close> is
  \<open>False\<close>; a cache is compared with \<^verbatim>\<open>===\<close> against a string or a boolean, so
  \<^verbatim>\<open>undefined\<close> is \<open>None\<close>, equal to no incoming value. The element is held by the
  wrapper and by nothing else in this file, so the record holds the element itself.
\<close>

record fastLabelNode =
  disposed :: bool
  p_textContent :: "string option"
  p_className :: "string option"
  p_title :: "string option"
  p_empty :: "bool option"
  p_element :: element

definition new_FastLabelNode :: "element \<Rightarrow> fastLabelNode" where
  "new_FastLabelNode e =
     \<lparr> disposed = False, p_textContent = None, p_className = None, p_title = None,
       p_empty = None, p_element = e \<rparr>"

definition set_textContent :: "string \<Rightarrow> fastLabelNode \<Rightarrow> fastLabelNode" where
  "set_textContent content n =
     (if disposed n \<or> Some content = p_textContent n then n
      else n\<lparr> p_textContent := Some content,
              p_element := assign_textContent content (p_element n) \<rparr>)"

definition set_className :: "string \<Rightarrow> fastLabelNode \<Rightarrow> fastLabelNode" where
  "set_className cls n =
     (if disposed n \<or> Some cls = p_className n then n
      else n\<lparr> p_className := Some cls,
              p_element := assign_className cls (p_element n) \<rparr>)"

definition set_title :: "string \<Rightarrow> fastLabelNode \<Rightarrow> fastLabelNode" where
  "set_title t n =
     (if disposed n \<or> Some t = p_title n then n
      else n\<lparr> p_title := Some t,
              p_element := assign_title t (p_element n) \<rparr>)"

definition set_empty :: "bool \<Rightarrow> fastLabelNode \<Rightarrow> fastLabelNode" where
  "set_empty emp n =
     (if disposed n \<or> Some emp = p_empty n then n
      else n\<lparr> p_empty := Some emp,
              p_element := assign_marginLeft (if emp then Some ''0'' else None) (p_element n) \<rparr>)"

definition dispose_node :: "fastLabelNode \<Rightarrow> fastLabelNode" where
  "dispose_node n = n\<lparr> disposed := True \<rparr>"

section \<open>Collaborators\<close>

text \<open>
  Modelled from the spec: the class \<^verbatim>\<open>Color\<close> of \<^verbatim>\<open>vs/base/common/color\<close> is not among
  the sources. The spec gives it as a colour value with a serialisation to a style string
  and a darkness predicate; the widget uses nothing else of it, so a colour is the pair
  of the two. \<^verbatim>\<open>Color.white\<close> and \<^verbatim>\<open>Color.black\<close> are two fixed colours; the theorems
  refer to them only through \<open>toString\<close>.
\<close>

record color =
  c_css :: string
  c_darker :: bool

definition toString :: "color \<Rightarrow> string" where
  "toString c = c_css c"

definition isDarker :: "color \<Rightarrow> bool" where
  "isDarker c = c_darker c"

definition Color_white :: color where
  "Color_white = \<lparr> c_css = ''#ffffff'', c_darker = False \<rparr>"

definition Color_black :: color where
  "Color_black = \<lparr> c_css = ''#000000'', c_darker = True \<rparr>"

text \<open>\<^verbatim>\<open>IMatch\<close>: a pair of offsets, only passed through to the highlighter.\<close>

type_synonym imatch = "int \<times> int"

text \<open>
  Modelled from the spec: the class \<^verbatim>\<open>HighlightedLabel\<close> is not among the sources. The spec
  gives it as a renderer that accepts raw text and match ranges, has a root element of
  its own and a \<^verbatim>\<open>dispose\<close>. What it renders is its own business: the model keeps the
  root element, the calls of \<^verbatim>\<open>set\<close> it has received, in order, and whether \<^verbatim>\<open>dispose\<close>
  was called.
\<close>

record highlightedLabel =
  h_element :: element
  h_sets :: "(string \<times> imatch list option) list"
  h_disposed :: bool

definition h_set :: "string \<Rightarrow> imatch list option \<Rightarrow> highlightedLabel \<Rightarrow> highlightedLabel" where
  "h_set text ms h = h\<lparr> h_sets := h_sets h @ [(text, ms)] \<rparr>"

definition h_dispose :: "highlightedLabel \<Rightarrow> highlightedLabel" where
  "h_dispose h = h\<lparr> h_disposed := True \<rparr>"

text \<open>
  Modelled from the spec: the helpers of \<^verbatim>\<open>vs/base/browser/dom\<close> are not among the sources.
  The spec gives them as element creation and append, and show and hide helpers.
  \<open>dom_dollar tag cls\<close> stands for \<^verbatim>\<open>dom.$('tag.cls')\<close>; showing an element clears its
  \<^verbatim>\<open>display\<close> style and hiding sets it to \<^verbatim>\<open>none\<close>.
\<close>

definition dom_dollar :: "string \<Rightarrow> string \<Rightarrow> runtime \<Rightarrow> element \<times> runtime" where
  "dom_dollar tag cls rt =
     (case createElement tag rt of (e, rt') \<Rightarrow> (assign_className cls e, rt'))"

definition dom_show :: "element \<Rightarrow> element" where
  "dom_show e = assign_display '''' e"

definition dom_hide :: "element \<Rightarrow> element" where
  "dom_hide e = assign_display ''none'' e"

definition new_HighlightedLabel :: "element \<Rightarrow> runtime \<Rightarrow> highlightedLabel \<times> element \<times> runtime" where
  "new_HighlightedLabel container rt =
     (case dom_dollar ''span'' ''monaco-highlighted-label'' rt of (e, rt') \<Rightarrow>
        (\<lparr> h_element = e, h_sets = [], h_disposed = False \<rparr>, appendChild e container, rt'))"

section \<open>IconLabel\<close>

text \<open>
  \<^verbatim>\<open>IIconLabelCreationOptions\<close> and \<^verbatim>\<open>IIconLabelOptions\<close>: every member is optional, so
  every field is an option, \<open>None\<close> for \<^verbatim>\<open>undefined\<close>.
\<close>

record iconLabelCreationOptions =
  supportHighlights :: "bool option"

record badgeOption =
  letter :: string
  b_title :: string

record iconLabelOptions =
  o_title :: "string option"
  extraClasses :: "string list option"
  italic :: "bool option"
  matches :: "imatch list option"
  color :: "color option"
  badge :: "badgeOption option"

datatype labelNodeKind = Plain fastLabelNode | Highlighted highlightedLabel

record iconLabel =
  domNode :: fastLabelNode
  labelNode :: labelNodeKind
  descriptionNode :: fastLabelNode
  badgeNode :: "element option"

datatype error = TypeError

text \<open>
  A call works on the page's allocation state and the widget. A call that throws has
  already made the assignments before the throw: the state at the throw is part of the
  error result.
\<close>

type_synonym state = "runtime \<times> iconLabel"

type_synonym result = "(error \<times> state) + state"

definition state_of :: "result \<Rightarrow> state" where
  "state_of r = (case r of Inl (e, s) \<Rightarrow> s | Inr s \<Rightarrow> s)"

text \<open>The constructor. It also returns the caller's container with the new child.\<close>

definition new_IconLabel ::
  "element \<Rightarrow> iconLabelCreationOptions option \<Rightarrow> runtime \<Rightarrow> state \<times> element" where
  "new_IconLabel container options rt =
     (case dom_dollar ''div'' ''monaco-icon-label'' rt of (root, rt1) \<Rightarrow>
       (case dom_dollar ''a'' ''label-name'' rt1 of (a, rt2) \<Rightarrow>
         (case (if (case options of None \<Rightarrow> False | Some c \<Rightarrow> supportHighlights c = Some True)
                then (case new_HighlightedLabel a rt2 of (h, a', rt3) \<Rightarrow> (Highlighted h, rt3))
                else (Plain (new_FastLabelNode a), rt2)) of (lbl, rt3) \<Rightarrow>
           (case dom_dollar ''span'' ''label-description'' rt3 of (d, rt4) \<Rightarrow>
              ((rt4, \<lparr> domNode = new_FastLabelNode (appendChild d (appendChild a root)),
                       labelNode = lbl,
                       descriptionNode = new_FastLabelNode d,
                       badgeNode = None \<rparr>),
               appendChild root container)))))"

text \<open>The getters \<^verbatim>\<open>element\<close> and \<^verbatim>\<open>labelElement\<close>.\<close>

definition element_of :: "iconLabel \<Rightarrow> element" where
  "element_of w = p_element (domNode w)"

definition labelElement :: "iconLabel \<Rightarrow> element" where
  "labelElement w = (case labelNode w of Highlighted h \<Rightarrow> h_element h | Plain n \<Rightarrow> p_element n)"

text \<open>An assignment through \<^verbatim>\<open>this.element\<close> reaches the element held by \<open>domNode\<close>.\<close>

definition on_element :: "(element \<Rightarrow> element) \<Rightarrow> iconLabel \<Rightarrow> iconLabel" where
  "on_element f w = w\<lparr> domNode := (domNode w)\<lparr> p_element := f (p_element (domNode w)) \<rparr> \<rparr>"

text \<open>\<^verbatim>\<open>Array.prototype.join\<close> with a separator.\<close>

fun join :: "string \<Rightarrow> string list \<Rightarrow> string" where
  "join sep [] = ''''"
| "join sep [x] = x"
| "join sep (x # y # ys) = x @ sep @ join sep (y # ys)"

text \<open>
  JavaScript truthiness where the code relies on it: \<^verbatim>\<open>s || ''\<close> on an optional string,
  and an optional string used as a condition (\<^verbatim>\<open>undefined\<close> and the empty string are
  false).
\<close>

definition or_empty :: "string option \<Rightarrow> string" where
  "or_empty s = (case s of None \<Rightarrow> '''' | Some v \<Rightarrow> v)"

definition truthy :: "string option \<Rightarrow> bool" where
  "truthy s = (case s of None \<Rightarrow> False | Some v \<Rightarrow> v \<noteq> '''')"

text \<open>Lines 125 to 134 of \<^verbatim>\<open>setValue\<close>: the class list.\<close>

definition classes_of :: "iconLabelOptions option \<Rightarrow> string list" where
  "classes_of options =
     [''monaco-icon-label''] @
     (case options of
        None \<Rightarrow> []
      | Some opts \<Rightarrow>
          (case extraClasses opts of None \<Rightarrow> [] | Some xs \<Rightarrow> xs) @
          (if italic opts = Some True then [''italic''] else []))"

text \<open>
  Lines 125 to 149 of \<^verbatim>\<open>setValue\<close>, in the order of the source: the text colour (only
  under \<^verbatim>\<open>if (options)\<close>), the class name, the title, the label, the description and
  its empty flag.
\<close>

definition setValue_nodes ::
  "string option \<Rightarrow> string option \<Rightarrow> iconLabelOptions option \<Rightarrow> iconLabel \<Rightarrow> iconLabel" where
  "setValue_nodes label description options w =
     (let w1 = (case options of
                  None \<Rightarrow> w
                | Some opts \<Rightarrow>
                    on_element (assign_color (case color opts of Some c \<Rightarrow> toString c | None \<Rightarrow> '''')) w);
          w2 = w1\<lparr> domNode := set_className (join '' '' (classes_of options)) (domNode w1) \<rparr>;
          w3 = w2\<lparr> domNode :=
                 set_title (case options of
                              None \<Rightarrow> ''''
                            | Some opts \<Rightarrow> if truthy (o_title opts) then or_empty (o_title opts) else '''')
                   (domNode w2) \<rparr>;
          w4 = w3\<lparr> labelNode :=
                 (case labelNode w3 of
                    Highlighted h \<Rightarrow>
                      Highlighted (h_set (or_empty label)
                                     (case options of None \<Rightarrow> None | Some opts \<Rightarrow> matches opts) h)
                  | Plain n \<Rightarrow> Plain (set_textContent (or_empty label) n)) \<rparr>;
          w5 = w4\<lparr> descriptionNode := set_textContent (or_empty description) (descriptionNode w4) \<rparr>
      in w5\<lparr> descriptionNode := set_empty (\<not> truthy description) (descriptionNode w5) \<rparr>)"

text \<open>
  Lines 153 to 158 of \<^verbatim>\<open>setValue\<close>: the badge is created. \<^verbatim>\<open>this.badgeNode\<close> is assigned
  and its class written before \<^verbatim>\<open>options.color.toString()\<close> is evaluated; with no colour
  that call throws a \<^verbatim>\<open>TypeError\<close>, and the widget keeps the badge node it has just been
  given, which is not appended.
\<close>

definition createBadge :: "color option \<Rightarrow> state \<Rightarrow> result" where
  "createBadge col s =
     (case s of (rt, w) \<Rightarrow>
       (case createElement ''span'' rt of (bn0, rt') \<Rightarrow>
         (let bn1 = assign_className ''label-badge'' bn0 in
           (case col of
              None \<Rightarrow> Inl (TypeError, (rt', w\<lparr> badgeNode := Some bn1 \<rparr>))
            | Some c \<Rightarrow>
                (let bn2 = assign_backgroundColor (toString c) bn1;
                     bn3 = assign_color (toString (if isDarker c then Color_white else Color_black)) bn2;
                     w1 = on_element (assign_display ''flex'') (w\<lparr> badgeNode := Some bn3 \<rparr>)
                 in Inr (rt', on_element (appendChild bn3) w1))))))"

text \<open>Lines 160 to 163: letter, title and visibility of the badge that is there.\<close>

definition updateBadge :: "badgeOption \<Rightarrow> state \<Rightarrow> result" where
  "updateBadge b s =
     (case s of (rt, w) \<Rightarrow>
       (case badgeNode w of
          None \<Rightarrow> Inl (TypeError, (rt, w))
        | Some bn \<Rightarrow>
            Inr (rt, w\<lparr> badgeNode :=
                      Some (dom_show (assign_title (b_title b) (assign_innerHTML (letter b) bn))) \<rparr>)))"

text \<open>The conditions \<^verbatim>\<open>options && options.badge\<close> and the member \<^verbatim>\<open>options.color\<close>.\<close>

definition badge_of :: "iconLabelOptions option \<Rightarrow> badgeOption option" where
  "badge_of options = (case options of None \<Rightarrow> None | Some opts \<Rightarrow> badge opts)"

definition color_of :: "iconLabelOptions option \<Rightarrow> color option" where
  "color_of options = (case options of None \<Rightarrow> None | Some opts \<Rightarrow> color opts)"

text \<open>Lines 151 to 167 of \<^verbatim>\<open>setValue\<close>: the badge is created or updated, or hidden.\<close>

definition setValue_badge :: "iconLabelOptions option \<Rightarrow> state \<Rightarrow> result" where
  "setValue_badge options s =
     (case s of (rt, w) \<Rightarrow>
       (case badge_of options of
          Some b \<Rightarrow>
            (case (if badgeNode w = None then createBadge (color_of options) (rt, w) else Inr (rt, w)) of
               Inl thrown \<Rightarrow> Inl thrown
             | Inr s' \<Rightarrow> updateBadge b s')
        | None \<Rightarrow>
            (case badgeNode w of
               Some bn \<Rightarrow> Inr (rt, w\<lparr> badgeNode := Some (dom_hide bn) \<rparr>)
             | None \<Rightarrow> Inr (rt, w))))"

definition setValue ::
  "string option \<Rightarrow> string option \<Rightarrow> iconLabelOptions option \<Rightarrow> state \<Rightarrow> result" where
  "setValue label description options s =
     (case s of (rt, w) \<Rightarrow> setValue_badge options (rt, setValue_nodes label description options w))"

definition dispose :: "state \<Rightarrow> state" where
  "dispose s =
     (case s of (rt, w) \<Rightarrow>
        (rt, w\<lparr> domNode := dispose_node (domNode w),
                labelNode := (case labelNode w of
                                Highlighted h \<Rightarrow> Highlighted (h_dispose h)
                              | Plain n \<Rightarrow> Plain (dispose_node n)),
                descriptionNode := dispose_node (descriptionNode w) \<rparr>))"

text \<open>
  A caller's calls in sequence. A caller that catches the exception of one call goes on
  with the widget as the throw left it.
\<close>

datatype call =
    SetValue "string option" "string option" "iconLabelOptions option"
  | Dispose

fun perform :: "call \<Rightarrow> state \<Rightarrow> state" where
  "perform (SetValue label description options) s = state_of (setValue label description options s)"
| "perform Dispose s = dispose s"

definition run :: "call list \<Rightarrow> state \<Rightarrow> state" where
  "run calls s = fold perform calls s"

subsection \<open>onClick\<close>

text \<open>
  Modelled from the spec: \<^verbatim>\<open>dom.addDisposableListener\<close> and \<^verbatim>\<open>combinedDisposable\<close> are not
  among the sources. The spec gives them as listener attachment with a disposal handle,
  and one handle that disposes several. A handle names the node it was attached to (the
  label element or the description element of the widget), the event type and the
  function object; disposing it removes that function from that node. A click on a node
  calls the click listeners of the node in the order of their registration; the model
  returns the calls made, as pairs of callback and event.
\<close>

datatype region = LabelRegion | DescriptionRegion

record listenerHandle =
  lh_node :: region
  lh_type :: string
  lh_function :: nat

type_synonym disposable = "listenerHandle list"

definition region_element :: "region \<Rightarrow> iconLabel \<Rightarrow> element" where
  "region_element r w =
     (case r of LabelRegion \<Rightarrow> labelElement w | DescriptionRegion \<Rightarrow> p_element (descriptionNode w))"

definition on_region :: "region \<Rightarrow> (element \<Rightarrow> element) \<Rightarrow> iconLabel \<Rightarrow> iconLabel" where
  "on_region r f w =
     (case r of
        LabelRegion \<Rightarrow>
          w\<lparr> labelNode :=
               (case labelNode w of
                  Highlighted h \<Rightarrow> Highlighted (h\<lparr> h_element := f (h_element h) \<rparr>)
                | Plain n \<Rightarrow> Plain (n\<lparr> p_element := f (p_element n) \<rparr>)) \<rparr>
      | DescriptionRegion \<Rightarrow>
          w\<lparr> descriptionNode := (descriptionNode w)\<lparr> p_element := f (p_element (descriptionNode w)) \<rparr> \<rparr>)"

definition addEventListener :: "listener \<Rightarrow> element \<Rightarrow> element" where
  "addEventListener l e = e\<lparr> listeners := listeners e @ [l] \<rparr>"

definition removeEventListener :: "string \<Rightarrow> nat \<Rightarrow> element \<Rightarrow> element" where
  "removeEventListener ty f e =
     e\<lparr> listeners := filter (\<lambda>l. \<not> (l_type l = ty \<and> l_function l = f)) (listeners e) \<rparr>"

definition addDisposableListener ::
  "region \<Rightarrow> string \<Rightarrow> nat \<times> nat \<Rightarrow> iconLabel \<Rightarrow> disposable \<times> iconLabel" where
  "addDisposableListener r ty handler w =
     ([\<lparr> lh_node = r, lh_type = ty, lh_function = fst handler \<rparr>],
      on_region r (addEventListener \<lparr> l_function = fst handler, l_type = ty, l_callback = snd handler \<rparr>) w)"

definition combinedDisposable :: "disposable list \<Rightarrow> disposable" where
  "combinedDisposable ds = concat ds"

definition dispose_handle :: "disposable \<Rightarrow> iconLabel \<Rightarrow> iconLabel" where
  "dispose_handle d w =
     fold (\<lambda>h. on_region (lh_node h) (removeEventListener (lh_type h) (lh_function h))) d w"

definition click :: "region \<Rightarrow> nat \<Rightarrow> iconLabel \<Rightarrow> (nat \<times> nat) list" where
  "click r ev w =
     map (\<lambda>l. (l_callback l, ev)) (filter (\<lambda>l. l_type l = ''click'') (listeners (region_element r w)))"

text \<open>
  \<^verbatim>\<open>onClick\<close>: each of the two arrow functions \<^verbatim>\<open>(e) => callback(e)\<close> is a new function
  object; the array literal evaluates its two elements in order.
\<close>

definition onClick :: "nat \<Rightarrow> state \<Rightarrow> disposable \<times> state" where
  "onClick callback s =
     (case s of (rt, w) \<Rightarrow>
       (let f1 = functionsCreated rt;
            r1 = addDisposableListener LabelRegion ''click'' (f1, callback) w;
            f2 = Suc f1;
            r2 = addDisposableListener DescriptionRegion ''click'' (f2, callback) (snd r1)
        in (combinedDisposable [fst r1, fst r2], (rt\<lparr> functionsCreated := Suc f2 \<rparr>, snd r2))))"

section \<open>FileLabel\<close>

text \<open>
  \<^verbatim>\<open>paths.dirname\<close>, \<^verbatim>\<open>paths.basename\<close> and \<^verbatim>\<open>getPathLabel\<close> are not among the sources:
  \<open>setFile\<close> takes them as parameters, together with the provider and the user home it
  only hands on to \<^verbatim>\<open>getPathLabel\<close>.
\<close>

record uri =
  fsPath :: string

record ('p, 'u) labels =
  paths_dirname :: "string \<Rightarrow> string"
  paths_basename :: "string \<Rightarrow> string"
  getPathLabel :: "string \<Rightarrow> 'p \<Rightarrow> 'u \<Rightarrow> string"

definition title_only :: "string \<Rightarrow> iconLabelOptions" where
  "title_only t =
     \<lparr> o_title = Some t, extraClasses = None, italic = None, matches = None, color = None,
       badge = None \<rparr>"

definition setFile :: "('p, 'u) labels \<Rightarrow> uri \<Rightarrow> 'p \<Rightarrow> 'u \<Rightarrow> state \<Rightarrow> result" where
  "setFile api fileUri provider userHome s =
     (let parent = paths_dirname api (fsPath fileUri)
      in setValue (Some (paths_basename api (fsPath fileUri)))
           (Some (if parent \<noteq> '''' \<and> parent \<noteq> ''.''
                  then getPathLabel api parent provider userHome else ''''))
           (Some (title_only (fsPath fileUri))) s)"

definition new_FileLabel ::
  "('p, 'u) labels \<Rightarrow> element \<Rightarrow> uri \<Rightarrow> 'p \<Rightarrow> 'u \<Rightarrow> runtime \<Rightarrow> result \<times> element" where
  "new_FileLabel api container fileUri provider userHome rt =
     (case new_IconLabel container None rt of (s, container') \<Rightarrow>
        (setFile api fileUri provider userHome s, container'))"

section \<open>Observations and invariants\<close>

text \<open>
  A wrapper is coherent when each cache that holds a value holds the value its element
  has: the caches and the element are only ever written together.
\<close>

definition coherent :: "fastLabelNode \<Rightarrow> bool" where
  "coherent n =
     ((case p_textContent n of None \<Rightarrow> True | Some v \<Rightarrow> textContent (p_element n) = v) \<and>
      (case p_className n of None \<Rightarrow> True | Some v \<Rightarrow> className (p_element n) = v) \<and>
      (case p_title n of None \<Rightarrow> True | Some v \<Rightarrow> title (p_element n) = v) \<and>
      (case p_empty n of None \<Rightarrow> True
       | Some b \<Rightarrow> style_marginLeft (p_element n) = (if b then ''0'' else '''')))"

definition coherent_widget :: "iconLabel \<Rightarrow> bool" where
  "coherent_widget w =
     (coherent (domNode w) \<and> coherent (descriptionNode w) \<and>
      (case labelNode w of Plain n \<Rightarrow> coherent n | Highlighted h \<Rightarrow> True))"

text \<open>
  The widget as \<^verbatim>\<open>FileLabel\<close> builds it (a plain label node, no highlighter) and with
  none of its three wrappers disposed.
\<close>

definition alive_plain :: "iconLabel \<Rightarrow> bool" where
  "alive_plain w =
     (\<not> disposed (domNode w) \<and> \<not> disposed (descriptionNode w) \<and>
      (case labelNode w of Plain n \<Rightarrow> \<not> disposed n | Highlighted h \<Rightarrow> False))"

text \<open>The properties of an element, without the record of the writes that made them.\<close>

definition properties :: "element \<Rightarrow> element" where
  "properties e = e\<lparr> writes := [] \<rparr>"

text \<open>The writes that go through a \<^verbatim>\<open>FastLabelNode\<close> setter.\<close>

fun wrapped :: "dom_write \<Rightarrow> bool" where
  "wrapped (W_className v) = True"
| "wrapped (W_textContent v) = True"
| "wrapped (W_title v) = True"
| "wrapped (W_marginLeft v) = True"
| "wrapped (W_innerHTML v) = False"
| "wrapped (W_color v) = False"
| "wrapped (W_backgroundColor v) = False"
| "wrapped (W_display v) = False"
| "wrapped (W_appendChild v) = False"

definition wrapped_writes :: "element \<Rightarrow> dom_write list" where
  "wrapped_writes e = filter wrapped (writes e)"

text \<open>The assignments to \<^verbatim>\<open>style.color\<close> among the writes of an element.\<close>

fun is_color_write :: "dom_write \<Rightarrow> bool" where
  "is_color_write (W_color v) = True"
| "is_color_write (W_className v) = False"
| "is_color_write (W_textContent v) = False"
| "is_color_write (W_innerHTML v) = False"
| "is_color_write (W_title v) = False"
| "is_color_write (W_marginLeft v) = False"
| "is_color_write (W_backgroundColor v) = False"
| "is_color_write (W_display v) = False"
| "is_color_write (W_appendChild v) = False"

definition color_writes :: "element \<Rightarrow> dom_write list" where
  "color_writes e = filter is_color_write (writes e)"

text \<open>
  Two values of the badge element are the same badge when they have the same identity
  and the same class and colours, which are given once, at creation.
\<close>

definition same_badge :: "element \<Rightarrow> element \<Rightarrow> bool" where
  "same_badge bn bn' =
     (uid bn' = uid bn \<and> tagName bn' = tagName bn \<and> className bn' = className bn \<and>
      style_backgroundColor bn' = style_backgroundColor bn \<and> style_color bn' = style_color bn)"

text \<open>
  The function objects registered on the label element and on the description element
  were all created before now: a function object created next is a new one.
\<close>

definition known_functions :: "state \<Rightarrow> bool" where
  "known_functions s =
     (case s of (rt, w) \<Rightarrow>
        list_all (\<lambda>l. l_function l < functionsCreated rt)
          (listeners (labelElement w) @ listeners (p_element (descriptionNode w))))"

text \<open>The calls a holder of a \<^verbatim>\<open>FastLabelNode\<close> can make, in sequence.\<close>

datatype node_call =
    SetTextContent string
  | SetClassName string
  | SetTitle string
  | SetEmpty bool
  | DisposeNode

fun perform_node :: "node_call \<Rightarrow> fastLabelNode \<Rightarrow> fastLabelNode" where
  "perform_node (SetTextContent v) n = set_textContent v n"
| "perform_node (SetClassName v) n = set_className v n"
| "perform_node (SetTitle v) n = set_title v n"
| "perform_node (SetEmpty b) n = set_empty b n"
| "perform_node DisposeNode n = dispose_node n"

section \<open>Example values\<close>

text \<open>
  A page with one container, and a widget built in it without creation options. The
  elements get the identities 1 (the widget's root), 2 (the label) and 3 (the description);
  the next element created gets 4.
\<close>

definition example_runtime :: runtime where
  "example_runtime = \<lparr> elementsCreated = 0, functionsCreated = 0 \<rparr>"

definition example_container :: element where
  "example_container = fst (createElement ''div'' example_runtime)"

definition example_widget :: state where
  "example_widget = fst (new_IconLabel example_container None (snd (createElement ''div'' example_runtime)))"

definition example_red :: color where
  "example_red = \<lparr> c_css = ''#ff0000'', c_darker = True \<rparr>"

definition example_yellow :: color where
  "example_yellow = \<lparr> c_css = ''#ffff00'', c_darker = False \<rparr>"

definition example_badge :: badgeOption where
  "example_badge = \<lparr> letter = ''M'', b_title = ''Modified'' \<rparr>"

definition example_options :: "color option \<Rightarrow> badgeOption option \<Rightarrow> iconLabelOptions" where
  "example_options c b =
     \<lparr> o_title = Some ''tip'', extraClasses = Some [''file-icon'', ''ts-ext''], italic = Some True,
       matches = None, color = c, badge = b \<rparr>"

text \<open>The same call twice, with a colour and a badge; then a call with another colour.\<close>

definition example_first :: state where
  "example_first =
     state_of (setValue (Some ''main.ts'') (Some ''/src'')
       (Some (example_options (Some example_red) (Some example_badge))) example_widget)"

definition example_second :: state where
  "example_second =
     state_of (setValue (Some ''main.ts'') (Some ''/src'')
       (Some (example_options (Some example_red) (Some example_badge))) example_first)"

definition example_later :: state where
  "example_later =
     state_of (setValue (Some ''main.ts'') (Some ''/src'')
       (Some (example_options (Some example_yellow) (Some example_badge))) example_first)"

text \<open>Calls made after \<^verbatim>\<open>dispose\<close>: with a colour and a badge, and with a badge and no colour.\<close>

definition example_late :: result where
  "example_late =
     setValue (Some ''x'') None (Some (example_options (Some example_yellow) (Some example_badge)))
       (dispose example_widget)"

definition example_late_thrown :: result where
  "example_late_thrown =
     setValue (Some ''x'') None (Some (example_options None (Some example_badge)))
       (dispose example_widget)"

text \<open>
  Path collaborators for the examples: the parent of \<^verbatim>\<open>/a.ts\<close> is the root \<^verbatim>\<open>/\<close>, the
  parent of \<^verbatim>\<open>/src/main.ts\<close> is \<^verbatim>\<open>/src\<close>, a bare name has the parent \<^verbatim>\<open>.\<close>; the label
  of a directory is its path.
\<close>

definition example_labels :: "(unit, unit) labels" where
  "example_labels =
     \<lparr> paths_dirname = (\<lambda>p. if p = ''/a.ts'' then ''/'' else if p = ''/src/main.ts'' then ''/src'' else ''.''),
       paths_basename = (\<lambda>p. if p = ''/a.ts'' then ''a.ts'' else if p = ''/src/main.ts'' then ''main.ts'' else p),
       getPathLabel = (\<lambda>p provider userHome. p) \<rparr>"

definition example_root_file :: result where
  "example_root_file = setFile example_labels \<lparr> fsPath = ''/a.ts'' \<rparr> () () example_widget"

section \<open>Properties of FastLabelNode\<close>

lemmas assign_defs = assign_className_def assign_textContent_def assign_innerHTML_def
  assign_title_def assign_marginLeft_def assign_color_def assign_backgroundColor_def
  assign_display_def appendChild_def

lemmas setter_defs = set_textContent_def set_className_def set_title_def set_empty_def

lemma disposed_perform_node: "disposed n \<Longrightarrow> perform_node c n = n"
  by (cases c) (simp_all add: setter_defs dispose_node_def)

lemma disposed_fold_perform_node: "disposed n \<Longrightarrow> fold perform_node calls n = n"
  by (induction calls) (simp_all add: disposed_perform_node)

text \<open>
  Claim C6. Each setter of the wrapper (\<^verbatim>\<open>textContent\<close>, \<^verbatim>\<open>className\<close>, \<^verbatim>\<open>title\<close>,
  \<^verbatim>\<open>empty\<close>) returns the wrapper as it was, its element and the element's record of
  writes included, when the wrapper is disposed or the incoming value is the cached one;
  and once \<^verbatim>\<open>dispose\<close> has been called, no sequence of setter calls changes the wrapper
  any more.
\<close>

theorem FastLabelNode_setters_skip:
  "(disposed n \<or> p_textContent n = Some content \<longrightarrow> set_textContent content n = n) \<and>
   (disposed n \<or> p_className n = Some cls \<longrightarrow> set_className cls n = n) \<and>
   (disposed n \<or> p_title n = Some t \<longrightarrow> set_title t n = n) \<and>
   (disposed n \<or> p_empty n = Some b \<longrightarrow> set_empty b n = n) \<and>
   (\<forall>calls. fold perform_node calls (dispose_node n) = dispose_node n)"
proof -
  have "disposed (dispose_node n)" by (simp add: dispose_node_def)
  then have "\<forall>calls. fold perform_node calls (dispose_node n) = dispose_node n"
    by (simp add: disposed_fold_perform_node)
  then show ?thesis by (auto simp: setter_defs)
qed

text \<open>
  The claim at a wrapper that was disposed before anything was written, and at a wrapper
  given the same class name twice.
\<close>

theorem FastLabelNode_setters_skip_witness:
  "disposed (dispose_node (new_FastLabelNode example_container)) \<and>
   set_textContent ''late'' (dispose_node (new_FastLabelNode example_container))
     = dispose_node (new_FastLabelNode example_container) \<and>
   p_className (set_className ''a'' (new_FastLabelNode example_container)) = Some ''a'' \<and>
   set_className ''a'' (set_className ''a'' (new_FastLabelNode example_container))
     = set_className ''a'' (new_FastLabelNode example_container)"
  using FastLabelNode_setters_skip
          [of "dispose_node (new_FastLabelNode example_container)" "''late''" "''a''" "''a''" True]
        FastLabelNode_setters_skip
          [of "set_className ''a'' (new_FastLabelNode example_container)" "''late''" "''a''" "''a''" True]
  by (simp add: dispose_node_def new_FastLabelNode_def set_className_def)

text \<open>What a setter does to a wrapper that is not disposed, and what it leaves alone.\<close>

lemma setter_disposed [simp]:
  "disposed (set_textContent v n) = disposed n"
  "disposed (set_className v n) = disposed n"
  "disposed (set_title v n) = disposed n"
  "disposed (set_empty b n) = disposed n"
  by (simp_all add: setter_defs)

lemma setter_coherent:
  "coherent n \<Longrightarrow> coherent (set_textContent v n)"
  "coherent n \<Longrightarrow> coherent (set_className v n)"
  "coherent n \<Longrightarrow> coherent (set_title v n)"
  "coherent n \<Longrightarrow> coherent (set_empty b n)"
  by (auto simp: setter_defs coherent_def assign_defs split: option.splits)

lemma setter_applied:
  "\<not> disposed n \<Longrightarrow> coherent n \<Longrightarrow> textContent (p_element (set_textContent v n)) = v"
  "\<not> disposed n \<Longrightarrow> coherent n \<Longrightarrow> className (p_element (set_className v n)) = v"
  "\<not> disposed n \<Longrightarrow> coherent n \<Longrightarrow> title (p_element (set_title v n)) = v"
  "\<not> disposed n \<Longrightarrow> coherent n \<Longrightarrow>
     style_marginLeft (p_element (set_empty b n)) = (if b then ''0'' else '''')"
  by (auto simp: setter_defs coherent_def assign_defs split: option.splits)

lemma setter_cache:
  "\<not> disposed n \<Longrightarrow> p_textContent (set_textContent v n) = Some v"
  "\<not> disposed n \<Longrightarrow> p_className (set_className v n) = Some v"
  "\<not> disposed n \<Longrightarrow> p_title (set_title v n) = Some v"
  "\<not> disposed n \<Longrightarrow> p_empty (set_empty b n) = Some b"
  by (auto simp: setter_defs)

lemma setter_other_properties:
  "className (p_element (set_textContent v n)) = className (p_element n)"
  "title (p_element (set_textContent v n)) = title (p_element n)"
  "style_marginLeft (p_element (set_textContent v n)) = style_marginLeft (p_element n)"
  "textContent (p_element (set_className v n)) = textContent (p_element n)"
  "title (p_element (set_className v n)) = title (p_element n)"
  "style_color (p_element (set_className v n)) = style_color (p_element n)"
  "className (p_element (set_title v n)) = className (p_element n)"
  "style_color (p_element (set_title v n)) = style_color (p_element n)"
  "textContent (p_element (set_empty b n)) = textContent (p_element n)"
  by (simp_all add: setter_defs assign_defs)

lemma disposed_setter:
  "disposed n \<Longrightarrow> set_textContent v n = n"
  "disposed n \<Longrightarrow> set_className v n = n"
  "disposed n \<Longrightarrow> set_title v n = n"
  "disposed n \<Longrightarrow> set_empty b n = n"
  by (simp_all add: setter_defs)

lemma dispose_node_again: "disposed n \<Longrightarrow> dispose_node n = n"
  by (cases n) (simp add: dispose_node_def)

lemma coherent_dispose_node: "coherent (dispose_node n) = coherent n"
  by (simp add: coherent_def dispose_node_def cong: option.case_cong)

lemma description_twice:
  "set_empty b (set_textContent v (set_empty b (set_textContent v n))) =
     set_empty b (set_textContent v n)"
  by (auto simp: setter_defs)

lemma label_twice: "set_textContent v (set_textContent v n) = set_textContent v n"
  by (auto simp: setter_defs)

lemma domNode_applied:
  "disposed (set_title t (set_className c n)) \<or>
   p_className (set_title t (set_className c n)) = Some c \<and>
   p_title (set_title t (set_className c n)) = Some t"
  by (auto simp: setter_defs)

lemma domNode_settled:
  "disposed m \<or> p_className m = Some c \<and> p_title m = Some t \<Longrightarrow>
     set_title t (set_className c (m\<lparr> p_element := e \<rparr>)) = m\<lparr> p_element := e \<rparr>"
  by (auto simp: setter_defs)

lemma properties_assign_color_same:
  "style_color e = v \<Longrightarrow> properties (assign_color v e) = properties e"
  by (auto simp: properties_def assign_defs)

lemma wrapped_assign_color: "wrapped_writes (assign_color v e) = wrapped_writes e"
  by (simp add: wrapped_writes_def assign_defs)

section \<open>The two parts of setValue\<close>

text \<open>The badge part leaves the three wrappers alone, but for the container's display and children.\<close>

lemma setValue_badge_frame:
  "labelNode (snd (state_of (setValue_badge opts (rt, w)))) = labelNode w"
  "descriptionNode (snd (state_of (setValue_badge opts (rt, w)))) = descriptionNode w"
  "className (p_element (domNode (snd (state_of (setValue_badge opts (rt, w)))))) = className (p_element (domNode w))"
  "title (p_element (domNode (snd (state_of (setValue_badge opts (rt, w)))))) = title (p_element (domNode w))"
  "style_color (p_element (domNode (snd (state_of (setValue_badge opts (rt, w)))))) = style_color (p_element (domNode w))"
  "color_writes (p_element (domNode (snd (state_of (setValue_badge opts (rt, w)))))) = color_writes (p_element (domNode w))"
  by (simp_all add: setValue_badge_def createBadge_def updateBadge_def state_of_def on_element_def
        createElement_def assign_defs Let_def color_writes_def
        split: option.splits sum.splits prod.splits)

lemma setValue_badge_caches:
  "disposed (domNode (snd (state_of (setValue_badge opts (rt, w))))) = disposed (domNode w)"
  "p_className (domNode (snd (state_of (setValue_badge opts (rt, w))))) = p_className (domNode w)"
  "p_title (domNode (snd (state_of (setValue_badge opts (rt, w))))) = p_title (domNode w)"
  by (simp_all add: setValue_badge_def createBadge_def updateBadge_def state_of_def on_element_def
        createElement_def Let_def split: option.splits sum.splits prod.splits)

lemma setValue_badge_wrapped:
  "wrapped_writes (p_element (domNode (snd (state_of (setValue_badge opts (rt, w)))))) =
     wrapped_writes (p_element (domNode w))"
  by (simp add: setValue_badge_def createBadge_def updateBadge_def state_of_def on_element_def
        createElement_def assign_defs Let_def wrapped_writes_def
        split: option.splits sum.splits prod.splits)

lemma setValue_badge_coherent:
  "coherent (domNode (snd (state_of (setValue_badge opts (rt, w))))) = coherent (domNode w)"
  by (simp add: setValue_badge_def createBadge_def updateBadge_def state_of_def on_element_def
        createElement_def assign_defs Let_def coherent_def
        split: option.splits sum.splits prod.splits)

text \<open>The first part, field by field.\<close>

lemma setValue_nodes_parts:
  "descriptionNode (setValue_nodes l d opts w) =
     set_empty (\<not> truthy d) (set_textContent (or_empty d) (descriptionNode w))"
  "labelNode (setValue_nodes l d opts w) =
     (case labelNode w of
        Highlighted h \<Rightarrow> Highlighted (h_set (or_empty l) (case opts of None \<Rightarrow> None | Some x \<Rightarrow> matches x) h)
      | Plain n \<Rightarrow> Plain (set_textContent (or_empty l) n))"
  "badgeNode (setValue_nodes l d opts w) = badgeNode w"
  "domNode (setValue_nodes l d None w) = set_title '''' (set_className ''monaco-icon-label'' (domNode w))"
  "domNode (setValue_nodes l d (Some x) w) =
     set_title (or_empty (o_title x))
       (set_className (join '' '' (classes_of (Some x)))
          ((domNode w)\<lparr> p_element := assign_color (case color x of Some c \<Rightarrow> toString c | None \<Rightarrow> '''')
                                        (p_element (domNode w)) \<rparr>))"
  by (auto simp: setValue_nodes_def Let_def on_element_def classes_of_def truthy_def or_empty_def
        split: option.splits)

lemma setValue_nodes_childNodes:
  "childNodes (p_element (domNode (setValue_nodes l d opts w))) = childNodes (p_element (domNode w))"
  by (cases opts) (simp_all add: setValue_nodes_parts setter_defs assign_defs)

lemma setValue_nodes_coherent:
  assumes "coherent_widget w"
  shows "coherent_widget (setValue_nodes l d opts w)"
proof -
  have c: "coherent (domNode w)" "coherent (descriptionNode w)"
    using assms by (simp_all add: coherent_widget_def)
  have "coherent ((domNode w)\<lparr> p_element := assign_color v (p_element (domNode w)) \<rparr>)" for v
    using c(1) by (auto simp: coherent_def assign_defs split: option.splits)
  then have "coherent (domNode (setValue_nodes l d opts w))"
    using c(1) by (cases opts) (simp_all add: setValue_nodes_parts setter_coherent)
  moreover have "coherent (descriptionNode (setValue_nodes l d opts w))"
    using c(2) by (simp add: setValue_nodes_parts setter_coherent)
  moreover have "case labelNode (setValue_nodes l d opts w) of Plain n \<Rightarrow> coherent n | Highlighted h \<Rightarrow> True"
    using assms by (simp add: setValue_nodes_parts coherent_widget_def setter_coherent split: labelNodeKind.splits)
  ultimately show ?thesis by (simp add: coherent_widget_def)
qed

lemma setValue_nodes_disposed:
  assumes "disposed (domNode w)" and "disposed (descriptionNode w)"
  shows "descriptionNode (setValue_nodes l d opts w) = descriptionNode w"
    and "disposed (domNode (setValue_nodes l d opts w))"
    and "className (p_element (domNode (setValue_nodes l d opts w))) = className (p_element (domNode w))"
    and "title (p_element (domNode (setValue_nodes l d opts w))) = title (p_element (domNode w))"
    and "wrapped_writes (p_element (domNode (setValue_nodes l d opts w))) = wrapped_writes (p_element (domNode w))"
    and "labelNode w = Plain n \<Longrightarrow> disposed n \<Longrightarrow> labelNode (setValue_nodes l d opts w) = Plain n"
proof -
  show "descriptionNode (setValue_nodes l d opts w) = descriptionNode w"
    using assms by (simp add: setValue_nodes_parts disposed_setter)
  show "labelNode w = Plain n \<Longrightarrow> disposed n \<Longrightarrow> labelNode (setValue_nodes l d opts w) = Plain n"
    by (simp add: setValue_nodes_parts disposed_setter)
  show "disposed (domNode (setValue_nodes l d opts w))"
    using assms by (cases opts) (simp_all add: setValue_nodes_parts)
  show "className (p_element (domNode (setValue_nodes l d opts w))) = className (p_element (domNode w))"
    using assms by (cases opts) (simp_all add: setValue_nodes_parts disposed_setter assign_color_def)
  show "title (p_element (domNode (setValue_nodes l d opts w))) = title (p_element (domNode w))"
    using assms by (cases opts) (simp_all add: setValue_nodes_parts disposed_setter assign_color_def)
  show "wrapped_writes (p_element (domNode (setValue_nodes l d opts w))) = wrapped_writes (p_element (domNode w))"
    using assms by (cases opts) (simp_all add: setValue_nodes_parts disposed_setter wrapped_assign_color)
qed

text \<open>When a call returns and when it throws.\<close>

lemma setValue_badge_returns:
  assumes "badge_of options = None \<or> color_of options \<noteq> None \<or> badgeNode w \<noteq> None"
  shows "\<exists>s. setValue_badge options (rt, w) = Inr s"
proof (cases "badge_of options")
  case None
  then show ?thesis by (simp add: setValue_badge_def split: option.splits)
next
  case (Some b)
  show ?thesis
  proof (cases "badgeNode w")
    case (Some bn)
    then show ?thesis using \<open>badge_of options = Some b\<close>
      by (simp add: setValue_badge_def updateBadge_def)
  next
    case None
    then obtain c where "color_of options = Some c"
      using assms \<open>badge_of options = Some b\<close> by auto
    then show ?thesis using None \<open>badge_of options = Some b\<close>
      by (simp add: setValue_badge_def createBadge_def updateBadge_def Let_def on_element_def
            split: prod.splits)
  qed
qed

lemma setValue_returns:
  assumes "badge_of options = None \<or> color_of options \<noteq> None \<or> badgeNode w \<noteq> None"
  shows "\<exists>s. setValue l d options (rt, w) = Inr s"
  using setValue_badge_returns[of options "setValue_nodes l d options w" rt] assms
  by (simp add: setValue_def setValue_nodes_parts)

lemma setValue_throws:
  assumes "badge_of opts \<noteq> None" and "color_of opts = None" and "badgeNode w = None"
  shows "isl (setValue l d opts (rt, w))"
  using assms
  by (auto simp: setValue_def setValue_badge_def createBadge_def setValue_nodes_parts Let_def
        split: prod.splits)

lemma setValue_color_applied:
  "style_color (element_of (snd (state_of (setValue l d (Some x) (rt, w))))) =
     (case color x of Some c \<Rightarrow> toString c | None \<Rightarrow> '''')"
  by (simp add: setValue_def setValue_badge_frame element_of_def setValue_nodes_parts
        setter_other_properties assign_defs)

section \<open>Widgets as the constructor and the calls leave them\<close>

lemma perform_coherent:
  assumes "coherent_widget w"
  shows "coherent_widget (snd (perform c (rt, w)))"
proof (cases c)
  case (SetValue l d opts)
  show ?thesis
    using setValue_nodes_coherent[OF assms, of l d opts]
    by (simp add: SetValue setValue_def coherent_widget_def setValue_badge_frame setValue_badge_coherent)
next
  case Dispose
  then show ?thesis using assms
    by (simp add: dispose_def coherent_widget_def coherent_dispose_node split: labelNodeKind.splits)
qed

lemma perform_alive:
  "alive_plain (snd (perform (SetValue l d opts) (rt, w))) = alive_plain w"
  by (simp add: setValue_def alive_plain_def setValue_badge_frame setValue_badge_caches
        setValue_nodes_parts split: labelNodeKind.splits)
     (cases opts; simp add: setValue_nodes_parts)

lemma run_coherent:
  "coherent_widget (snd s) \<Longrightarrow> coherent_widget (snd (run calls s))"
proof (induction calls arbitrary: s)
  case Nil
  then show ?case by (simp add: run_def)
next
  case (Cons c calls)
  have "coherent_widget (snd (perform c s))"
    using perform_coherent[of "snd s" c "fst s"] Cons.prems by simp
  from Cons.IH[OF this] show ?case by (simp add: run_def)
qed

lemma new_IconLabel_coherent:
  "coherent_widget (snd (fst (new_IconLabel container copts rt)))"
  by (simp add: new_IconLabel_def dom_dollar_def createElement_def new_FastLabelNode_def
        new_HighlightedLabel_def coherent_widget_def coherent_def split: prod.splits)

lemma reachable_coherent:
  "coherent_widget (snd (run calls (fst (new_IconLabel container copts rt))))"
  by (rule run_coherent[OF new_IconLabel_coherent])

lemma new_IconLabel_plain:
  "\<exists>rt' w n. fst (new_IconLabel container None rt) = (rt', w) \<and> labelNode w = Plain n \<and>
     \<not> disposed n \<and> \<not> disposed (domNode w) \<and> \<not> disposed (descriptionNode w) \<and>
     coherent_widget w \<and> badgeNode w = None"
  by (simp add: new_IconLabel_def dom_dollar_def createElement_def new_FastLabelNode_def
        coherent_widget_def coherent_def split: prod.splits)

lemma new_IconLabel_alive:
  "alive_plain (snd (fst (new_IconLabel container None rt)))"
  "coherent_widget (snd (fst (new_IconLabel container None rt)))"
  using new_IconLabel_plain[of container rt] by (auto simp: alive_plain_def)

lemma dispose_keeps:
  "fst (dispose s) = fst s"
  "badgeNode (snd (dispose s)) = badgeNode (snd s)"
  "element_of (snd (dispose s)) = element_of (snd s)"
  by (cases s; simp add: dispose_def element_of_def dispose_node_def)+

lemma example_widget_facts:
  "badgeNode (snd example_widget) = None"
  "alive_plain (snd example_widget)"
  "coherent_widget (snd example_widget)"
  "known_functions example_widget"
  "elementsCreated (fst example_widget) = 4"
  "style_color (element_of (snd example_widget)) = ''''"
  "click r ev (snd example_widget) = []"
  by (cases r; simp add: example_widget_def example_container_def example_runtime_def new_IconLabel_def
        dom_dollar_def createElement_def assign_className_def appendChild_def new_FastLabelNode_def
        alive_plain_def coherent_widget_def coherent_def known_functions_def labelElement_def
        element_of_def click_def region_element_def)+

lemma example_options_fields:
  "color (example_options c b) = c"
  "badge (example_options c b) = b"
  "badge_of (Some (example_options c b)) = b"
  "color_of (Some (example_options c b)) = c"
  "o_title (example_options c b) = Some ''tip''"
  "extraClasses (example_options c b) = Some [''file-icon'', ''ts-ext'']"
  "italic (example_options c b) = Some True"
  by (simp_all add: example_options_def badge_of_def color_of_def)

section \<open>The description's empty flag\<close>

text \<open>
  Claim C5. On a widget whose description wrapper is not disposed, a \<^verbatim>\<open>setValue\<close> call
  with an undefined or empty description leaves the description node's empty flag true
  and its left margin \<^verbatim>\<open>0\<close>; a call with a non-empty description leaves the flag false
  and the margin cleared. This holds also when the call throws in its badge part.
\<close>

theorem setValue_description_empty:
  assumes "\<not> disposed (descriptionNode w)" and "coherent (descriptionNode w)"
  shows "(description = None \<or> description = Some '''' \<longrightarrow>
            p_empty (descriptionNode (snd (state_of (setValue label description options (rt, w))))) = Some True \<and>
            style_marginLeft (p_element (descriptionNode (snd (state_of (setValue label description options (rt, w)))))) = ''0'') \<and>
         (description \<noteq> None \<and> description \<noteq> Some '''' \<longrightarrow>
            p_empty (descriptionNode (snd (state_of (setValue label description options (rt, w))))) = Some False \<and>
            style_marginLeft (p_element (descriptionNode (snd (state_of (setValue label description options (rt, w)))))) = '''')"
proof -
  let ?n = "set_textContent (or_empty description) (descriptionNode w)"
  have d: "descriptionNode (snd (state_of (setValue label description options (rt, w))))
             = set_empty (\<not> truthy description) ?n"
    by (simp add: setValue_def setValue_badge_frame setValue_nodes_parts)
  have n: "\<not> disposed ?n" "coherent ?n"
    using assms by (simp_all add: setter_coherent)
  have t: "truthy description \<longleftrightarrow> description \<noteq> None \<and> description \<noteq> Some ''''"
    by (simp add: truthy_def split: option.splits)
  show ?thesis
    unfolding d using setter_cache(4)[OF n(1)] setter_applied(4)[OF n] t by auto
qed

text \<open>The claim at the example widget, with an empty and with a non-empty description.\<close>

theorem setValue_description_empty_witness:
  "\<not> disposed (descriptionNode (snd example_widget)) \<and> coherent (descriptionNode (snd example_widget)) \<and>
   p_empty (descriptionNode (snd (state_of (setValue (Some ''a.ts'') (Some '''') None example_widget)))) = Some True \<and>
   style_marginLeft (p_element (descriptionNode (snd (state_of (setValue (Some ''a.ts'') (Some '''') None example_widget))))) = ''0'' \<and>
   p_empty (descriptionNode (snd (state_of (setValue (Some ''a.ts'') (Some ''/src'') None example_widget)))) = Some False \<and>
   style_marginLeft (p_element (descriptionNode (snd (state_of (setValue (Some ''a.ts'') (Some ''/src'') None example_widget))))) = ''''"
proof -
  have h: "\<not> disposed (descriptionNode (snd example_widget))" "coherent (descriptionNode (snd example_widget))"
    using example_widget_facts(2,3) by (simp_all add: alive_plain_def coherent_widget_def)
  show ?thesis
    using h
      setValue_description_empty[OF h, of "Some ''''" "Some ''a.ts''" None "fst example_widget"]
      setValue_description_empty[OF h, of "Some ''/src''" "Some ''a.ts''" None "fst example_widget"]
    by simp
qed

section \<open>Class list, title and colour of the container\<close>

text \<open>
  Claim C8. On a widget whose container wrapper is not disposed, every \<^verbatim>\<open>setValue\<close> call
  leaves the container with the class name made of \<^verbatim>\<open>monaco-icon-label\<close>, then the extra
  classes of the options, then \<^verbatim>\<open>italic\<close> exactly when the italic option is true, joined
  by single spaces, and with the title of the options, empty when there is none. The
  right-hand sides do not mention the widget before the call: nothing of earlier calls
  stays in the class list.
\<close>

theorem setValue_class_and_title:
  assumes "\<not> disposed (domNode w)" and "coherent (domNode w)"
  shows "className (element_of (snd (state_of (setValue label description options (rt, w))))) =
           join '' '' (''monaco-icon-label'' #
             (case options of
                None \<Rightarrow> []
              | Some opts \<Rightarrow>
                  (case extraClasses opts of None \<Rightarrow> [] | Some extra \<Rightarrow> extra) @
                  (if italic opts = Some True then [''italic''] else []))) \<and>
         title (element_of (snd (state_of (setValue label description options (rt, w))))) =
           (case options of
              None \<Rightarrow> ''''
            | Some opts \<Rightarrow> (case o_title opts of None \<Rightarrow> '''' | Some t \<Rightarrow> t))"
proof (cases options)
  case None
  let ?n = "set_className ''monaco-icon-label'' (domNode w)"
  have n: "\<not> disposed ?n" "coherent ?n" using assms by (simp_all add: setter_coherent)
  show ?thesis
    using assms n
    by (simp add: None setValue_def setValue_badge_frame element_of_def setValue_nodes_parts
          setter_applied setter_other_properties)
next
  case (Some x)
  let ?m = "(domNode w)\<lparr> p_element := assign_color (case color x of Some c \<Rightarrow> toString c | None \<Rightarrow> '''')
                                        (p_element (domNode w)) \<rparr>"
  have m: "\<not> disposed ?m" "coherent ?m"
    using assms by (auto simp: coherent_def assign_defs split: option.splits)
  let ?n = "set_className (join '' '' (classes_of (Some x))) ?m"
  have n: "\<not> disposed ?n" "coherent ?n" using m by (simp_all add: setter_coherent)
  have c: "className (p_element (set_title (or_empty (o_title x)) ?n)) = join '' '' (classes_of (Some x))"
    using setter_applied(2)[OF m] by (simp add: setter_other_properties)
  have t: "title (p_element (set_title (or_empty (o_title x)) ?n)) = or_empty (o_title x)"
    using setter_applied(3)[OF n] by simp
  show ?thesis
    using c t
    by (simp add: Some setValue_def setValue_badge_frame element_of_def setValue_nodes_parts
          classes_of_def or_empty_def)
qed

text \<open>
  The claim at the example widget: a call with two extra classes and the italic flag,
  then a call without options, after which only the base class is left.
\<close>

theorem setValue_class_and_title_witness:
  "\<not> disposed (domNode (snd example_widget)) \<and> coherent (domNode (snd example_widget)) \<and>
   className (element_of (snd (state_of (setValue (Some ''a.ts'') None
       (Some (example_options None None)) example_widget)))) = ''monaco-icon-label file-icon ts-ext italic'' \<and>
   title (element_of (snd (state_of (setValue (Some ''a.ts'') None
       (Some (example_options None None)) example_widget)))) = ''tip'' \<and>
   className (element_of (snd (state_of (setValue (Some ''b.ts'') None None
       (state_of (setValue (Some ''a.ts'') None (Some (example_options None None)) example_widget)))))) =
     ''monaco-icon-label''"
proof -
  have h: "\<not> disposed (domNode (snd example_widget))" "coherent (domNode (snd example_widget))"
    using example_widget_facts(2,3) by (simp_all add: alive_plain_def coherent_widget_def)
  obtain rt1 w1 where s: "state_of (setValue (Some ''a.ts'') None (Some (example_options None None)) example_widget) = (rt1, w1)"
    by (cases "state_of (setValue (Some ''a.ts'') None (Some (example_options None None)) example_widget)")
  have h1: "\<not> disposed (domNode w1)" "coherent (domNode w1)"
    using perform_coherent[of "snd example_widget" "SetValue (Some ''a.ts'') None (Some (example_options None None))" "fst example_widget"]
      perform_alive[of "Some ''a.ts''" None "Some (example_options None None)" "fst example_widget" "snd example_widget"]
      example_widget_facts(2,3) s
    by (simp_all add: coherent_widget_def alive_plain_def)
  show ?thesis
    using h s
      setValue_class_and_title[OF h, of "Some ''a.ts''" None "Some (example_options None None)" "fst example_widget"]
      setValue_class_and_title[OF h1, of "Some ''b.ts''" None None rt1]
    by (simp add: example_options_fields)
qed

text \<open>
  Claim C9. A \<^verbatim>\<open>setValue\<close> call without options leaves the container's text colour as it
  was and makes no assignment to it; a call with options sets it to the colour of the
  options, or clears it when they have none. So a colour set by one call is still there
  after a following call without options.
\<close>

theorem setValue_without_options_keeps_color:
  "style_color (element_of (snd (state_of (setValue label description None (rt, w))))) =
     style_color (element_of w) \<and>
   color_writes (element_of (snd (state_of (setValue label description None (rt, w))))) =
     color_writes (element_of w) \<and>
   style_color (element_of (snd (state_of (setValue label description (Some opts) (rt, w))))) =
     (case color opts of Some c \<Rightarrow> toString c | None \<Rightarrow> '''') \<and>
   style_color (element_of (snd (state_of (setValue label' description' None
       (state_of (setValue label description (Some opts) (rt, w))))))) =
     (case color opts of Some c \<Rightarrow> toString c | None \<Rightarrow> '''')"
proof -
  have a: "style_color (element_of (snd (state_of (setValue l d None (r, v))))) = style_color (element_of v)"
    for l d r v
    by (simp add: setValue_def setValue_badge_frame element_of_def setValue_nodes_parts
          setter_other_properties)
  have b: "color_writes (element_of (snd (state_of (setValue label description None (rt, w))))) =
     color_writes (element_of w)"
    by (simp add: setValue_def element_of_def setValue_badge_frame)
       (simp add: setValue_nodes_parts color_writes_def setter_defs assign_defs)
  have c: "style_color (element_of (snd (state_of (setValue label description (Some opts) (rt, w))))) =
     (case color opts of Some c \<Rightarrow> toString c | None \<Rightarrow> '''')"
    by (simp add: setValue_def setValue_badge_frame element_of_def setValue_nodes_parts
          setter_other_properties assign_defs)
  obtain r v where s: "state_of (setValue label description (Some opts) (rt, w)) = (r, v)"
    by (cases "state_of (setValue label description (Some opts) (rt, w))")
  have d: "style_color (element_of (snd (state_of (setValue label' description' None
       (state_of (setValue label description (Some opts) (rt, w))))))) =
     (case color opts of Some c \<Rightarrow> toString c | None \<Rightarrow> '''')"
    using a[of label' description' r v] c by (simp add: s)
  show ?thesis using a b c d by simp
qed

section \<open>The badge\<close>

lemma setValue_with_badge:
  assumes "badgeNode w = Some bn"
  shows "\<exists>w' bn'. setValue l d opts (rt, w) = Inr (rt, w') \<and>
           childNodes (element_of w') = childNodes (element_of w) \<and>
           badgeNode w' = Some bn' \<and> same_badge bn bn' \<and>
           style_display bn' = (if badge_of opts = None then ''none'' else '''')"
  using assms
  by (auto simp: setValue_def setValue_badge_def updateBadge_def setValue_nodes_parts
        setValue_nodes_childNodes element_of_def same_badge_def
        dom_show_def dom_hide_def assign_defs split: option.splits)

lemma perform_with_badge:
  assumes "badgeNode w = Some bn"
  shows "\<exists>w' bn'. perform c (rt, w) = (rt, w') \<and>
           childNodes (element_of w') = childNodes (element_of w) \<and>
           badgeNode w' = Some bn' \<and> same_badge bn bn'"
proof (cases c)
  case (SetValue l d opts)
  from setValue_with_badge[OF assms, of l d opts rt] show ?thesis
    by (auto simp: SetValue state_of_def)
next
  case Dispose
  then show ?thesis using assms
    by (simp add: dispose_def element_of_def dispose_node_def same_badge_def)
qed

lemma same_badge_trans: "same_badge a b \<Longrightarrow> same_badge b c \<Longrightarrow> same_badge a c"
  by (simp add: same_badge_def)

lemma run_with_badge:
  "badgeNode w = Some bn \<Longrightarrow>
     \<exists>w' bn'. run calls (rt, w) = (rt, w') \<and>
           childNodes (element_of w') = childNodes (element_of w) \<and>
           badgeNode w' = Some bn' \<and> same_badge bn bn'"
proof (induction calls arbitrary: w bn)
  case Nil
  then show ?case by (simp add: run_def same_badge_def)
next
  case (Cons c calls)
  from perform_with_badge[OF Cons.prems, of c rt]
  obtain w1 bn1 where p: "perform c (rt, w) = (rt, w1)"
    "childNodes (element_of w1) = childNodes (element_of w)"
    "badgeNode w1 = Some bn1" "same_badge bn bn1" by blast
  from Cons.IH[OF p(3)]
  obtain w2 bn2 where r: "run calls (rt, w1) = (rt, w2)"
    "childNodes (element_of w2) = childNodes (element_of w1)"
    "badgeNode w2 = Some bn2" "same_badge bn1 bn2" by blast
  have "run (c # calls) (rt, w) = (rt, w2)" using p(1) r(1) by (simp add: run_def)
  then show ?case using p r same_badge_trans[OF p(4) r(4)] by auto
qed

lemma setValue_first_badge:
  assumes "badgeNode w = None" and "badge opts = Some b" and "color opts = Some c"
  shows "\<exists>rt1 w1 bn. setValue label description (Some opts) (rt, w) = Inr (rt1, w1) \<and>
           elementsCreated rt1 = Suc (elementsCreated rt) \<and>
           badgeNode w1 = Some bn \<and>
           uid bn = elementsCreated rt \<and>
           className bn = ''label-badge'' \<and>
           style_backgroundColor bn = toString c \<and>
           style_color bn = toString (if isDarker c then Color_white else Color_black) \<and>
           style_display bn = '''' \<and> innerHTML bn = letter b \<and> title bn = b_title b \<and>
           style_display (element_of w1) = ''flex'' \<and>
           childNodes (element_of w1) = childNodes (element_of w) @ [uid bn]"
  using assms
  by (simp add: setValue_def setValue_badge_def badge_of_def color_of_def setValue_nodes_parts
        createBadge_def createElement_def updateBadge_def Let_def on_element_def element_of_def
        dom_show_def assign_defs setter_defs)

text \<open>
  Claim C10. Once the widget has a badge element, a \<^verbatim>\<open>setValue\<close> call with a badge option
  changes the badge's letter, title and display and nothing else, and a call without one
  changes its display only: whatever colour the options of the call carry, the badge
  keeps the background and foreground colours it has.
\<close>

theorem badge_colors_given_once:
  assumes "badgeNode w = Some bn"
  shows "\<exists>bn'. badgeNode (snd (state_of (setValue label description options (rt, w)))) = Some bn' \<and>
           bn' = (case badge_of options of
                    Some b \<Rightarrow> bn\<lparr> innerHTML := letter b, title := b_title b, style_display := '''',
                                  writes := writes bn @ [W_innerHTML (letter b), W_title (b_title b), W_display ''''] \<rparr>
                  | None \<Rightarrow> bn\<lparr> style_display := ''none'', writes := writes bn @ [W_display ''none''] \<rparr>) \<and>
           style_backgroundColor bn' = style_backgroundColor bn \<and>
           style_color bn' = style_color bn"
  using assms
  by (auto simp: setValue_def setValue_badge_def updateBadge_def state_of_def setValue_nodes_parts
        dom_show_def dom_hide_def assign_defs split: option.splits)

text \<open>
  The claim at the example: the badge was created by a call with the red colour; after
  a call with the yellow colour it still has the red background.
\<close>

theorem badge_colors_given_once_witness:
  "badgeNode (snd example_first) = Some (the (badgeNode (snd example_first))) \<and>
   style_backgroundColor (the (badgeNode (snd example_first))) = ''#ff0000'' \<and>
   color (example_options (Some example_yellow) (Some example_badge)) = Some example_yellow \<and>
   (\<exists>bn'. badgeNode (snd example_later) = Some bn' \<and>
      style_backgroundColor bn' = ''#ff0000'' \<and> style_color bn' = toString Color_white \<and>
      innerHTML bn' = ''M'')"
proof -
  have n: "badgeNode (snd example_widget) = None" by (rule example_widget_facts)
  from setValue_first_badge[OF n, of "example_options (Some example_red) (Some example_badge)"
          example_badge example_red "Some ''main.ts''" "Some ''/src''" "fst example_widget"]
  obtain rt1 w1 bn where f:
    "setValue (Some ''main.ts'') (Some ''/src'')
        (Some (example_options (Some example_red) (Some example_badge))) example_widget = Inr (rt1, w1)"
    "badgeNode w1 = Some bn" "style_backgroundColor bn = ''#ff0000''"
    "style_color bn = toString Color_white"
    by (auto simp: example_options_fields toString_def isDarker_def example_red_def)
  have e: "example_first = (rt1, w1)" using f(1) by (simp add: example_first_def state_of_def)
  have l: "example_later = state_of (setValue (Some ''main.ts'') (Some ''/src'')
       (Some (example_options (Some example_yellow) (Some example_badge))) (rt1, w1))"
    by (simp add: example_later_def e)
  from badge_colors_given_once[OF f(2), of "Some ''main.ts''" "Some ''/src''"
         "Some (example_options (Some example_yellow) (Some example_badge))" rt1]
  show ?thesis
    unfolding l e using f(2,3,4)
    by (auto simp: example_options_fields example_badge_def)
qed

text \<open>
  Claim C3. On a widget that has no badge element yet, a \<^verbatim>\<open>setValue\<close> call whose options
  carry a badge and the colour \<open>c\<close> returns, and creates exactly one element: the badge,
  appended to the container, shown, with background \<open>c\<close> and with foreground white when
  \<open>c\<close> is dark and black otherwise. After any further calls, a \<^verbatim>\<open>setValue\<close> call creates
  no element and appends none; the widget still holds the same badge element, hidden
  when the call has no badge option and shown when it has one.
\<close>

theorem badge_created_once_hidden_and_shown_again:
  assumes "badgeNode w = None" and "badge opts = Some b" and "color opts = Some c"
  shows "\<exists>rt1 w1 bn.
           setValue label description (Some opts) (rt, w) = Inr (rt1, w1) \<and>
           elementsCreated rt1 = Suc (elementsCreated rt) \<and>
           badgeNode w1 = Some bn \<and>
           style_backgroundColor bn = toString c \<and>
           style_color bn = toString (if isDarker c then Color_white else Color_black) \<and>
           style_display bn = '''' \<and>
           childNodes (element_of w1) = childNodes (element_of w) @ [uid bn] \<and>
           (\<forall>calls label' description' options'.
              \<exists>w2 bn2.
                perform (SetValue label' description' options') (run calls (rt1, w1)) = (rt1, w2) \<and>
                childNodes (element_of w2) = childNodes (element_of w1) \<and>
                badgeNode w2 = Some bn2 \<and> same_badge bn bn2 \<and>
                style_display bn2 = (if badge_of options' = None then ''none'' else ''''))"
proof -
  from setValue_first_badge[OF assms, of label description rt]
  obtain rt1 w1 bn where f: "setValue label description (Some opts) (rt, w) = Inr (rt1, w1)"
    "elementsCreated rt1 = Suc (elementsCreated rt)" "badgeNode w1 = Some bn"
    "style_backgroundColor bn = toString c"
    "style_color bn = toString (if isDarker c then Color_white else Color_black)"
    "style_display bn = ''''"
    "childNodes (element_of w1) = childNodes (element_of w) @ [uid bn]" by blast
  have later: "\<exists>w2 bn2.
                perform (SetValue l d opts') (run calls (rt1, w1)) = (rt1, w2) \<and>
                childNodes (element_of w2) = childNodes (element_of w1) \<and>
                badgeNode w2 = Some bn2 \<and> same_badge bn bn2 \<and>
                style_display bn2 = (if badge_of opts' = None then ''none'' else '''')"
    for calls l d opts'
  proof -
    from run_with_badge[OF f(3), of calls rt1]
    obtain wa bna where r: "run calls (rt1, w1) = (rt1, wa)"
      "childNodes (element_of wa) = childNodes (element_of w1)"
      "badgeNode wa = Some bna" "same_badge bn bna" by blast
    from setValue_with_badge[OF r(3), of l d opts' rt1]
    obtain w2 bn2 where s: "setValue l d opts' (rt1, wa) = Inr (rt1, w2)"
      "childNodes (element_of w2) = childNodes (element_of wa)"
      "badgeNode w2 = Some bn2" "same_badge bna bn2"
      "style_display bn2 = (if badge_of opts' = None then ''none'' else '''')" by blast
    show ?thesis
      using r s same_badge_trans[OF r(4) s(4)] by (simp add: state_of_def)
  qed
  show ?thesis using f later by blast
qed

text \<open>
  The claim at the example widget: the badge is the fifth element of the page; after one
  more call and a dispose, a call without options leaves that same badge hidden.
\<close>

theorem badge_created_once_hidden_and_shown_again_witness:
  "badgeNode (snd example_widget) = None \<and>
   badge (example_options (Some example_red) (Some example_badge)) = Some example_badge \<and>
   color (example_options (Some example_red) (Some example_badge)) = Some example_red \<and>
   (\<exists>rt1 w1 bn.
      setValue (Some ''main.ts'') (Some ''/src'')
        (Some (example_options (Some example_red) (Some example_badge))) example_widget = Inr (rt1, w1) \<and>
      elementsCreated rt1 = 5 \<and>
      badgeNode w1 = Some bn \<and>
      style_backgroundColor bn = ''#ff0000'' \<and>
      style_color bn = toString Color_white \<and>
      style_display bn = '''' \<and>
      (\<exists>w2 bn2.
         perform (SetValue (Some ''main.ts'') (Some ''/src'') None)
           (run [SetValue None None (Some (example_options None (Some example_badge))), Dispose] (rt1, w1))
             = (rt1, w2) \<and>
         badgeNode w2 = Some bn2 \<and> same_badge bn bn2 \<and> style_display bn2 = ''none''))"
proof -
  have h: "badgeNode (snd example_widget) = None"
    "badge (example_options (Some example_red) (Some example_badge)) = Some example_badge"
    "color (example_options (Some example_red) (Some example_badge)) = Some example_red"
    by (simp_all add: example_widget_facts example_options_fields)
  from badge_created_once_hidden_and_shown_again[OF h, of "Some ''main.ts''" "Some ''/src''" "fst example_widget"]
  obtain rt1 w1 bn where f:
    "setValue (Some ''main.ts'') (Some ''/src'')
        (Some (example_options (Some example_red) (Some example_badge))) example_widget = Inr (rt1, w1)"
    "elementsCreated rt1 = Suc (elementsCreated (fst example_widget))"
    "badgeNode w1 = Some bn"
    "style_backgroundColor bn = toString example_red"
    "style_color bn = toString (if isDarker example_red then Color_white else Color_black)"
    "style_display bn = ''''"
    "\<forall>calls label' description' options'.
              \<exists>w2 bn2.
                perform (SetValue label' description' options') (run calls (rt1, w1)) = (rt1, w2) \<and>
                childNodes (element_of w2) = childNodes (element_of w1) \<and>
                badgeNode w2 = Some bn2 \<and> same_badge bn bn2 \<and>
                style_display bn2 = (if badge_of options' = None then ''none'' else '''')"
    by auto
  from f(7) obtain w2 bn2 where g:
    "perform (SetValue (Some ''main.ts'') (Some ''/src'') None)
           (run [SetValue None None (Some (example_options None (Some example_badge))), Dispose] (rt1, w1))
             = (rt1, w2)"
    "badgeNode w2 = Some bn2" "same_badge bn bn2"
    "style_display bn2 = (if badge_of None = None then ''none'' else '''')"
    by blast
  have "style_display bn2 = ''none''" using g(4) by (simp add: badge_of_def)
  moreover have "elementsCreated rt1 = 5" using f(2) by (simp add: example_widget_facts)
  moreover have "style_backgroundColor bn = ''#ff0000''" "style_color bn = toString Color_white"
    using f(4,5) by (simp_all add: toString_def isDarker_def example_red_def)
  ultimately show ?thesis using h f(1,3,6) g(1,2,3) by blast
qed

section \<open>The same call twice\<close>

lemma setValue_badge_returned:
  assumes "setValue_badge opts (rt, w) = Inr (rt1, w1)"
  shows "(case badge_of opts of
            Some b \<Rightarrow> (\<exists>bn. badgeNode w1 = Some bn \<and> innerHTML bn = letter b \<and> title bn = b_title b \<and>
                          style_display bn = '''')
          | None \<Rightarrow> (case badgeNode w1 of None \<Rightarrow> True | Some bn \<Rightarrow> style_display bn = ''none''))"
  using assms
  by (auto simp: setValue_badge_def createBadge_def updateBadge_def on_element_def
        createElement_def assign_defs Let_def dom_show_def dom_hide_def
        split: option.splits sum.splits prod.splits if_splits)

lemma setValue_badge_again:
  assumes "case badge_of opts of
            Some b \<Rightarrow> (\<exists>bn. badgeNode w = Some bn \<and> innerHTML bn = letter b \<and> title bn = b_title b \<and>
                          style_display bn = '''')
          | None \<Rightarrow> (case badgeNode w of None \<Rightarrow> True | Some bn \<Rightarrow> style_display bn = ''none'')"
  shows "\<exists>w'. setValue_badge opts (rt, w) = Inr (rt, w') \<and>
           domNode w' = domNode w \<and> labelNode w' = labelNode w \<and>
           descriptionNode w' = descriptionNode w \<and>
           map_option properties (badgeNode w') = map_option properties (badgeNode w)"
  using assms
  by (auto simp: setValue_badge_def updateBadge_def assign_defs dom_show_def dom_hide_def
        properties_def split: option.splits)

lemma setValue_again:
  assumes "setValue label description options (rt, w) = Inr (rt1, w1)"
  shows "\<exists>w2. setValue label description options (rt1, w1) = Inr (rt1, w2) \<and>
           domNode w2 =
             (case options of
                None \<Rightarrow> domNode w1
              | Some x \<Rightarrow> (domNode w1)\<lparr> p_element :=
                    assign_color (style_color (p_element (domNode w1))) (p_element (domNode w1)) \<rparr>) \<and>
           (\<forall>x. options = Some x \<longrightarrow>
              style_color (p_element (domNode w1)) = (case color x of Some c \<Rightarrow> toString c | None \<Rightarrow> '''')) \<and>
           descriptionNode w2 = descriptionNode w1 \<and>
           (\<forall>n. labelNode w1 = Plain n \<longrightarrow> labelNode w2 = Plain n) \<and>
           map_option properties (badgeNode w2) = map_option properties (badgeNode w1)"
proof -
  let ?wn = "setValue_nodes label description options w"
  have b1: "setValue_badge options (rt, ?wn) = Inr (rt1, w1)"
    using assms by (simp add: setValue_def)
  then have w1: "w1 = snd (state_of (setValue_badge options (rt, ?wn)))"
    by (simp add: state_of_def)
  have desc1: "descriptionNode w1 = descriptionNode ?wn"
    and lab1: "labelNode w1 = labelNode ?wn"
    and col1: "style_color (p_element (domNode w1)) = style_color (p_element (domNode ?wn))"
    and cache1: "disposed (domNode w1) = disposed (domNode ?wn)"
      "p_className (domNode w1) = p_className (domNode ?wn)"
      "p_title (domNode w1) = p_title (domNode ?wn)"
    unfolding w1 by (simp_all add: setValue_badge_frame setValue_badge_caches)
  let ?wm = "setValue_nodes label description options w1"
  have desc2: "descriptionNode ?wm = descriptionNode w1"
    by (simp add: setValue_nodes_parts desc1 description_twice)
  have lab2: "labelNode w1 = Plain n \<Longrightarrow> labelNode ?wm = Plain n" for n
    using lab1 by (auto simp: setValue_nodes_parts label_twice split: labelNodeKind.splits)
  have badge2: "badgeNode ?wm = badgeNode w1"
    by (simp add: setValue_nodes_parts)
  have col: "options = Some x \<Longrightarrow>
      style_color (p_element (domNode w1)) = (case color x of Some c \<Rightarrow> toString c | None \<Rightarrow> '''')" for x
    unfolding col1 by (simp add: setValue_nodes_parts setter_other_properties assign_defs)
  have dom2: "domNode ?wm =
             (case options of
                None \<Rightarrow> domNode w1
              | Some x \<Rightarrow> (domNode w1)\<lparr> p_element :=
                    assign_color (style_color (p_element (domNode w1))) (p_element (domNode w1)) \<rparr>)"
  proof (cases options)
    case None
    have "disposed (domNode w1) \<or>
          p_className (domNode w1) = Some ''monaco-icon-label'' \<and> p_title (domNode w1) = Some ''''"
      unfolding cache1 None setValue_nodes_parts by (rule domNode_applied)
    from domNode_settled[OF this, of "p_element (domNode w1)"]
    show ?thesis by (simp add: None setValue_nodes_parts)
  next
    case (Some x)
    let ?c = "case color x of Some c \<Rightarrow> toString c | None \<Rightarrow> ''''"
    have "disposed (domNode w1) \<or>
          p_className (domNode w1) = Some (join '' '' (classes_of (Some x))) \<and>
          p_title (domNode w1) = Some (or_empty (o_title x))"
      unfolding cache1 Some setValue_nodes_parts by (rule domNode_applied)
    from domNode_settled[OF this, of "assign_color ?c (p_element (domNode w1))"]
    show ?thesis using col[OF Some] by (simp add: Some setValue_nodes_parts)
  qed
  have pre: "case badge_of options of
            Some b \<Rightarrow> (\<exists>bn. badgeNode ?wm = Some bn \<and> innerHTML bn = letter b \<and> title bn = b_title b \<and>
                          style_display bn = '''')
          | None \<Rightarrow> (case badgeNode ?wm of None \<Rightarrow> True | Some bn \<Rightarrow> style_display bn = ''none'')"
    unfolding badge2 by (rule setValue_badge_returned[OF b1])
  from setValue_badge_again[OF pre, of rt1]
  obtain w2 where s2: "setValue_badge options (rt1, ?wm) = Inr (rt1, w2)"
    "domNode w2 = domNode ?wm" "labelNode w2 = labelNode ?wm"
    "descriptionNode w2 = descriptionNode ?wm"
    "map_option properties (badgeNode w2) = map_option properties (badgeNode ?wm)" by blast
  have "setValue label description options (rt1, w1) = Inr (rt1, w2)"
    using s2(1) by (simp add: setValue_def)
  then show ?thesis
    using s2 desc2 lab2 badge2 dom2 col by simp
qed

text \<open>
  Claim C1, as amended. When a \<^verbatim>\<open>setValue\<close> call has returned and is repeated with the
  same arguments, the repeated call returns, makes no write through a wrapper (no class
  name, title, text or margin is assigned: the description node and a plain label node
  are as they were, writes included, and the container has no new wrapped write), and
  leaves every property of the container and of the badge with the value it had.
\<close>

theorem repeated_setValue_adds_no_wrapped_write:
  assumes "setValue label description options (rt, w) = Inr (rt1, w1)"
  shows "\<exists>w2. setValue label description options (rt1, w1) = Inr (rt1, w2) \<and>
           wrapped_writes (element_of w2) = wrapped_writes (element_of w1) \<and>
           properties (element_of w2) = properties (element_of w1) \<and>
           descriptionNode w2 = descriptionNode w1 \<and>
           (\<forall>n. labelNode w1 = Plain n \<longrightarrow> labelNode w2 = Plain n) \<and>
           map_option properties (badgeNode w2) = map_option properties (badgeNode w1)"
proof -
  from setValue_again[OF assms]
  obtain w2 where s: "setValue label description options (rt1, w1) = Inr (rt1, w2)"
    "domNode w2 =
             (case options of
                None \<Rightarrow> domNode w1
              | Some x \<Rightarrow> (domNode w1)\<lparr> p_element :=
                    assign_color (style_color (p_element (domNode w1))) (p_element (domNode w1)) \<rparr>)"
    "descriptionNode w2 = descriptionNode w1"
    "\<forall>n. labelNode w1 = Plain n \<longrightarrow> labelNode w2 = Plain n"
    "map_option properties (badgeNode w2) = map_option properties (badgeNode w1)" by blast
  have "wrapped_writes (element_of w2) = wrapped_writes (element_of w1)"
    "properties (element_of w2) = properties (element_of w1)"
    unfolding element_of_def s(2)
    by (cases options; simp add: wrapped_assign_color properties_assign_color_same)+
  then show ?thesis using s by blast
qed

lemma example_first_returned:
  "setValue (Some ''main.ts'') (Some ''/src'')
     (Some (example_options (Some example_red) (Some example_badge))) example_widget = Inr example_first"
proof -
  obtain s where "setValue (Some ''main.ts'') (Some ''/src'')
     (Some (example_options (Some example_red) (Some example_badge)))
       (fst example_widget, snd example_widget) = Inr s"
    using setValue_returns[of "Some (example_options (Some example_red) (Some example_badge))"
            "snd example_widget" "Some ''main.ts''" "Some ''/src''" "fst example_widget"]
    by (auto simp: example_options_fields)
  then show ?thesis by (simp add: example_first_def state_of_def)
qed

lemma example_second_returned:
  "setValue (Some ''main.ts'') (Some ''/src'')
     (Some (example_options (Some example_red) (Some example_badge))) example_first = Inr example_second \<and>
   domNode (snd example_second) = (domNode (snd example_first))\<lparr> p_element :=
      assign_color ''#ff0000'' (p_element (domNode (snd example_first))) \<rparr>"
proof -
  have h: "setValue (Some ''main.ts'') (Some ''/src'')
     (Some (example_options (Some example_red) (Some example_badge)))
       (fst example_widget, snd example_widget) = Inr (fst example_first, snd example_first)"
    using example_first_returned by simp
  from setValue_again[OF h]
  obtain w2 where s: "setValue (Some ''main.ts'') (Some ''/src'')
     (Some (example_options (Some example_red) (Some example_badge)))
        (fst example_first, snd example_first) = Inr (fst example_first, w2)"
     "domNode w2 = (domNode (snd example_first))\<lparr> p_element :=
                    assign_color (style_color (p_element (domNode (snd example_first))))
                       (p_element (domNode (snd example_first))) \<rparr>"
     "style_color (p_element (domNode (snd example_first))) = ''#ff0000''"
    by (auto simp: example_options_fields toString_def example_red_def)
  have e: "example_second = (fst example_first, w2)"
    using s(1) by (simp add: example_second_def state_of_def)
  show ?thesis unfolding e using s by simp
qed

text \<open>
  The claim as stated fails: the second of two identical calls assigns the container's
  text colour again.
\<close>

theorem repeated_setValue_writes_color_again:
  "setValue (Some ''main.ts'') (Some ''/src'')
     (Some (example_options (Some example_red) (Some example_badge))) example_widget = Inr example_first \<and>
   setValue (Some ''main.ts'') (Some ''/src'')
     (Some (example_options (Some example_red) (Some example_badge))) example_first = Inr example_second \<and>
   writes (element_of (snd example_second)) =
     writes (element_of (snd example_first)) @ [W_color ''#ff0000''] \<and>
   example_second \<noteq> example_first"
proof -
  have w: "writes (element_of (snd example_second)) =
     writes (element_of (snd example_first)) @ [W_color ''#ff0000'']"
    using example_second_returned by (simp add: element_of_def assign_color_def)
  then have "example_second \<noteq> example_first" by auto
  then show ?thesis using w example_first_returned example_second_returned by simp
qed

text \<open>The amended claim at the same two calls.\<close>

theorem repeated_setValue_adds_no_wrapped_write_witness:
  "setValue (Some ''main.ts'') (Some ''/src'')
     (Some (example_options (Some example_red) (Some example_badge))) example_widget = Inr example_first \<and>
   (\<exists>w2. setValue (Some ''main.ts'') (Some ''/src'')
            (Some (example_options (Some example_red) (Some example_badge))) example_first
              = Inr (fst example_first, w2) \<and>
          wrapped_writes (element_of w2) = wrapped_writes (element_of (snd example_first)) \<and>
          properties (element_of w2) = properties (element_of (snd example_first)) \<and>
          descriptionNode w2 = descriptionNode (snd example_first) \<and>
          labelNode w2 = labelNode (snd example_first) \<and>
          map_option properties (badgeNode w2) = map_option properties (badgeNode (snd example_first)))"
proof -
  have h: "setValue (Some ''main.ts'') (Some ''/src'')
     (Some (example_options (Some example_red) (Some example_badge)))
       (fst example_widget, snd example_widget) = Inr (fst example_first, snd example_first)"
    using example_first_returned by simp
  have "alive_plain (snd example_first)"
    using perform_alive[of "Some ''main.ts''" "Some ''/src''"
            "Some (example_options (Some example_red) (Some example_badge))"
            "fst example_widget" "snd example_widget"] example_widget_facts(2)
    by (simp add: example_first_def)
  then obtain n where n: "labelNode (snd example_first) = Plain n"
    by (auto simp: alive_plain_def split: labelNodeKind.splits)
  from repeated_setValue_adds_no_wrapped_write[OF h] show ?thesis
    using example_first_returned n by auto
qed

section \<open>After dispose\<close>

lemma perform_disposed:
  assumes "disposed (domNode w)" and "disposed (descriptionNode w)"
  shows "\<exists>rt' w'. perform c (rt, w) = (rt', w') \<and>
           disposed (domNode w') \<and> descriptionNode w' = descriptionNode w \<and>
           (\<forall>n. labelNode w = Plain n \<and> disposed n \<longrightarrow> labelNode w' = Plain n) \<and>
           className (element_of w') = className (element_of w) \<and>
           title (element_of w') = title (element_of w) \<and>
           wrapped_writes (element_of w') = wrapped_writes (element_of w)"
proof (cases c)
  case (SetValue l d opts)
  obtain rt' w' where r: "state_of (setValue_badge opts (rt, setValue_nodes l d opts w)) = (rt', w')"
    by (cases "state_of (setValue_badge opts (rt, setValue_nodes l d opts w))")
  then have w': "w' = snd (state_of (setValue_badge opts (rt, setValue_nodes l d opts w)))" by simp
  have "perform c (rt, w) = (rt', w')" using r by (simp add: SetValue setValue_def)
  moreover have "disposed (domNode w')" "descriptionNode w' = descriptionNode w"
    "className (element_of w') = className (element_of w)"
    "title (element_of w') = title (element_of w)"
    "wrapped_writes (element_of w') = wrapped_writes (element_of w)"
    unfolding w' element_of_def
    by (simp_all add: setValue_badge_frame setValue_badge_caches setValue_badge_wrapped
          setValue_nodes_disposed[OF assms])
  moreover have "labelNode w = Plain n \<and> disposed n \<longrightarrow> labelNode w' = Plain n" for n
    unfolding w' using setValue_nodes_disposed(6)[OF assms]
    by (simp add: setValue_badge_frame)
  ultimately show ?thesis by blast
next
  case Dispose
  then show ?thesis using assms
    by (auto simp: dispose_def dispose_node_again element_of_def)
qed

lemma run_disposed:
  "disposed (domNode w) \<Longrightarrow> disposed (descriptionNode w) \<Longrightarrow>
     \<exists>rt' w'. run calls (rt, w) = (rt', w') \<and>
           disposed (domNode w') \<and> descriptionNode w' = descriptionNode w \<and>
           (\<forall>n. labelNode w = Plain n \<and> disposed n \<longrightarrow> labelNode w' = Plain n) \<and>
           className (element_of w') = className (element_of w) \<and>
           title (element_of w') = title (element_of w) \<and>
           wrapped_writes (element_of w') = wrapped_writes (element_of w)"
proof (induction calls arbitrary: rt w)
  case Nil
  then show ?case by (simp add: run_def)
next
  case (Cons c calls)
  from perform_disposed[OF Cons.prems, of c rt]
  obtain rt1 w1 where p: "perform c (rt, w) = (rt1, w1)"
    "disposed (domNode w1)" "descriptionNode w1 = descriptionNode w"
    "\<forall>n. labelNode w = Plain n \<and> disposed n \<longrightarrow> labelNode w1 = Plain n"
    "className (element_of w1) = className (element_of w)"
    "title (element_of w1) = title (element_of w)"
    "wrapped_writes (element_of w1) = wrapped_writes (element_of w)" by blast
  have d1: "disposed (descriptionNode w1)" using p(3) Cons.prems(2) by simp
  from Cons.IH[OF p(2) d1, of rt1]
  obtain rt2 w2 where r: "run calls (rt1, w1) = (rt2, w2)"
    "disposed (domNode w2)" "descriptionNode w2 = descriptionNode w1"
    "\<forall>n. labelNode w1 = Plain n \<and> disposed n \<longrightarrow> labelNode w2 = Plain n"
    "className (element_of w2) = className (element_of w1)"
    "title (element_of w2) = title (element_of w1)"
    "wrapped_writes (element_of w2) = wrapped_writes (element_of w1)" by blast
  have "run (c # calls) (rt, w) = (rt2, w2)" using p(1) r(1) by (simp add: run_def)
  then show ?case using p r by auto
qed

text \<open>
  Claim C2, as amended. After \<^verbatim>\<open>dispose\<close>, whatever calls follow, the three wrappers
  pass nothing on: the description node and a plain label node stay as \<^verbatim>\<open>dispose\<close>
  left them, and the container keeps its class name and title and gets no wrapped write.
  A further \<^verbatim>\<open>setValue\<close> call returns unless it has to create the badge and its options
  carry no colour.
\<close>

theorem wrappers_ignore_setValue_after_dispose:
  "case run calls (dispose (rt, w)) of (rt', w') \<Rightarrow>
     descriptionNode w' = dispose_node (descriptionNode w) \<and>
     (\<forall>n. labelNode w = Plain n \<longrightarrow> labelNode w' = Plain (dispose_node n)) \<and>
     className (element_of w') = className (element_of w) \<and>
     title (element_of w') = title (element_of w) \<and>
     wrapped_writes (element_of w') = wrapped_writes (element_of w) \<and>
     (\<forall>label description options.
        badge_of options = None \<or> color_of options \<noteq> None \<or> badgeNode w' \<noteq> None \<longrightarrow>
        (\<exists>s. setValue label description options (rt', w') = Inr s))"
proof -
  obtain w0 where d: "dispose (rt, w) = (rt, w0)" "disposed (domNode w0)"
    "disposed (descriptionNode w0)" "descriptionNode w0 = dispose_node (descriptionNode w)"
    "element_of w0 = element_of w"
    "\<forall>n. labelNode w = Plain n \<longrightarrow> labelNode w0 = Plain (dispose_node n)"
    by (simp add: dispose_def dispose_node_def element_of_def)
  from run_disposed[OF d(2,3), of calls rt]
  obtain rt' w' where r: "run calls (rt, w0) = (rt', w')"
    "disposed (domNode w')" "descriptionNode w' = descriptionNode w0"
    "\<forall>n. labelNode w0 = Plain n \<and> disposed n \<longrightarrow> labelNode w' = Plain n"
    "className (element_of w') = className (element_of w0)"
    "title (element_of w') = title (element_of w0)"
    "wrapped_writes (element_of w') = wrapped_writes (element_of w0)" by blast
  have l: "\<forall>n. labelNode w = Plain n \<longrightarrow> labelNode w' = Plain (dispose_node n)"
    using d(6) r(4) by (auto simp: dispose_node_def)
  have t: "badge_of options = None \<or> color_of options \<noteq> None \<or> badgeNode w' \<noteq> None \<longrightarrow>
        (\<exists>s. setValue label description options (rt', w') = Inr s)" for label description options
    using setValue_returns[of options w' label description rt'] by blast
  show ?thesis
    unfolding d(1) r(1) using r(3,5,6,7) l d(4,5) t by simp
qed

text \<open>
  The claim as stated fails: on the disposed example widget, a call whose options carry
  a colour and a badge changes the container's text colour and creates the badge, and a
  call whose options carry a badge and no colour throws.
\<close>

theorem setValue_after_dispose_writes_color_and_badge:
  "style_color (element_of (snd (dispose example_widget))) = '''' \<and>
   badgeNode (snd (dispose example_widget)) = None \<and>
   style_color (element_of (snd (state_of example_late))) = ''#ffff00'' \<and>
   map_option uid (badgeNode (snd (state_of example_late))) = Some 4 \<and>
   isl example_late_thrown"
proof -
  have n: "badgeNode (snd (dispose example_widget)) = None"
    by (simp add: dispose_keeps example_widget_facts)
  have c0: "style_color (element_of (snd (dispose example_widget))) = ''''"
    by (simp add: dispose_keeps example_widget_facts)
  have c1: "style_color (element_of (snd (state_of example_late))) = ''#ffff00''"
    unfolding example_late_def
    using setValue_color_applied[of "Some ''x''" None "example_options (Some example_yellow) (Some example_badge)"
            "fst (dispose example_widget)" "snd (dispose example_widget)"]
    by (simp add: example_options_fields toString_def example_yellow_def)
  obtain rt0 w0 where d: "dispose example_widget = (rt0, w0)"
    by (cases "dispose example_widget")
  have d0: "badgeNode w0 = None" "elementsCreated rt0 = 4"
    using n dispose_keeps(1)[of example_widget] by (simp_all add: d example_widget_facts)
  from setValue_first_badge[OF d0(1), of "example_options (Some example_yellow) (Some example_badge)"
          example_badge example_yellow "Some ''x''" None rt0]
  have b: "map_option uid (badgeNode (snd (state_of example_late))) = Some 4"
    by (auto simp: example_late_def example_options_fields state_of_def d d0)
  have t: "isl example_late_thrown"
    unfolding example_late_thrown_def
    using setValue_throws[of "Some (example_options None (Some example_badge))" "snd (dispose example_widget)"
            "Some ''x''" None "fst (dispose example_widget)"] n
    by (simp add: example_options_fields)
  show ?thesis using n c0 c1 b t by simp
qed

text \<open>The amended claim at the disposed example widget.\<close>

theorem wrappers_ignore_setValue_after_dispose_witness:
  "descriptionNode (snd (run [SetValue (Some ''x'') (Some ''y'') (Some (example_options (Some example_yellow) None))]
      (dispose example_widget))) = dispose_node (descriptionNode (snd example_widget)) \<and>
   (case labelNode (snd example_widget) of
      Plain n \<Rightarrow>
        labelNode (snd (run [SetValue (Some ''x'') (Some ''y'') (Some (example_options (Some example_yellow) None))]
          (dispose example_widget))) = Plain (dispose_node n)
    | Highlighted h \<Rightarrow> False) \<and>
   className (element_of (snd (run [SetValue (Some ''x'') (Some ''y'') (Some (example_options (Some example_yellow) None))]
      (dispose example_widget)))) = className (element_of (snd example_widget)) \<and>
   wrapped_writes (element_of (snd (run [SetValue (Some ''x'') (Some ''y'') (Some (example_options (Some example_yellow) None))]
      (dispose example_widget)))) = wrapped_writes (element_of (snd example_widget)) \<and>
   (\<exists>s. setValue None None None
          (run [SetValue (Some ''x'') (Some ''y'') (Some (example_options (Some example_yellow) None))]
             (dispose example_widget)) = Inr s)"
proof -
  obtain n where n: "labelNode (snd example_widget) = Plain n"
    using example_widget_facts(2) by (auto simp: alive_plain_def split: labelNodeKind.splits)
  show ?thesis
    using wrappers_ignore_setValue_after_dispose
          [where calls = "[SetValue (Some ''x'') (Some ''y'') (Some (example_options (Some example_yellow) None))]"
             and rt = "fst example_widget" and w = "snd example_widget"] n
    by (auto simp: split_beta badge_of_def)
qed

section \<open>onClick\<close>

lemma filter_fresh:
  "list_all (\<lambda>l. l_function l < k) ls \<Longrightarrow>
   filter (\<lambda>l. \<not> (l_type l = ty \<and> l_function l = k)) ls = ls"
  by (induction ls) auto

lemma remove_added:
  assumes "list_all (\<lambda>l. l_function l < k) (listeners e)"
  shows "removeEventListener ty k (addEventListener \<lparr> l_function = k, l_type = ty, l_callback = cb \<rparr> e) = e"
  using filter_fresh[OF assms, of ty]
  by (simp add: removeEventListener_def addEventListener_def)

text \<open>
  Claim C7. \<^verbatim>\<open>onClick\<close> registers one click listener on the label element and one on the
  description element: a click on either calls the callback once more than before, after
  the listeners that were already there. Disposing the handle it returns removes the
  two listeners and nothing else: the widget is as before \<^verbatim>\<open>onClick\<close>, and a click calls
  what it called before.
\<close>

theorem onClick_calls_back_once_until_disposed:
  assumes "known_functions (rt, w)"
  shows "case onClick callback (rt, w) of (handle, (rt', w')) \<Rightarrow>
           (\<forall>ev. click LabelRegion ev w' = click LabelRegion ev w @ [(callback, ev)]) \<and>
           (\<forall>ev. click DescriptionRegion ev w' = click DescriptionRegion ev w @ [(callback, ev)]) \<and>
           dispose_handle handle w' = w \<and>
           (\<forall>r ev. click r ev (dispose_handle handle w') = click r ev w) \<and>
           known_functions (rt', w')"
proof -
  let ?k = "functionsCreated rt"
  have la: "list_all (\<lambda>l. l_function l < ?k) (listeners (labelElement w))"
    and de: "list_all (\<lambda>l. l_function l < ?k) (listeners (p_element (descriptionNode w)))"
    using assms by (simp_all add: known_functions_def)
  have de': "list_all (\<lambda>l. l_function l < Suc ?k) (listeners (p_element (descriptionNode w)))"
    using de by (simp add: list_all_iff less_Suc_eq)
  have la': "list_all (\<lambda>l. l_function l < Suc (Suc ?k)) (listeners (labelElement w))"
    using la by (simp add: list_all_iff less_Suc_eq)
  have de'': "list_all (\<lambda>l. l_function l < Suc (Suc ?k)) (listeners (p_element (descriptionNode w)))"
    using de by (simp add: list_all_iff less_Suc_eq)
  have undone: "dispose_handle (fst (onClick callback (rt, w))) (snd (snd (onClick callback (rt, w)))) = w"
    using remove_added[OF la, of "''click''" callback] remove_added[OF de', of "''click''" callback]
    by (cases "labelNode w")
       (simp_all add: onClick_def Let_def addDisposableListener_def combinedDisposable_def
          dispose_handle_def on_region_def labelElement_def)
  have clicks:
    "click LabelRegion ev (snd (snd (onClick callback (rt, w)))) = click LabelRegion ev w @ [(callback, ev)]"
    "click DescriptionRegion ev (snd (snd (onClick callback (rt, w)))) = click DescriptionRegion ev w @ [(callback, ev)]"
    for ev
    by (cases "labelNode w";
        simp add: onClick_def Let_def addDisposableListener_def click_def region_element_def
          on_region_def labelElement_def addEventListener_def)+
  have known: "known_functions (snd (onClick callback (rt, w)))"
    using la' de''
    by (cases "labelNode w")
       (simp_all add: onClick_def Let_def addDisposableListener_def known_functions_def
          on_region_def labelElement_def addEventListener_def)
  show ?thesis
    using undone clicks known by (simp add: split_beta)
qed

text \<open>
  The claim at the example widget, which has no listener: a click calls the callback
  exactly once, and not at all once the handle is disposed.
\<close>

theorem onClick_calls_back_once_until_disposed_witness:
  "known_functions example_widget \<and>
   click LabelRegion 7 (snd (snd (onClick 1 example_widget))) = [(1, 7)] \<and>
   click DescriptionRegion 7 (snd (snd (onClick 1 example_widget))) = [(1, 7)] \<and>
   click LabelRegion 7 (dispose_handle (fst (onClick 1 example_widget)) (snd (snd (onClick 1 example_widget)))) = [] \<and>
   click DescriptionRegion 7 (dispose_handle (fst (onClick 1 example_widget)) (snd (snd (onClick 1 example_widget)))) = []"
proof -
  have h: "known_functions (fst example_widget, snd example_widget)"
    using example_widget_facts(4) by simp
  show ?thesis
    using onClick_calls_back_once_until_disposed[OF h, of 1] example_widget_facts(4,7)
    by (simp add: split_beta)
qed

section \<open>FileLabel\<close>

lemma setValue_title_only:
  assumes "labelNode w = Plain n" and "\<not> disposed n" and "\<not> disposed (domNode w)"
    and "\<not> disposed (descriptionNode w)" and "coherent_widget w"
  shows "\<exists>rt' w'. setValue (Some base) (Some desc) (Some (title_only path)) (rt, w) = Inr (rt', w') \<and>
           textContent (labelElement w') = base \<and>
           textContent (p_element (descriptionNode w')) = desc \<and>
           title (element_of w') = path"
proof -
  let ?opts = "Some (title_only path)"
  have c: "coherent n" "coherent (domNode w)" "coherent (descriptionNode w)"
    using assms(1,5) by (simp_all add: coherent_widget_def)
  have "badge_of ?opts = None" by (simp add: badge_of_def title_only_def)
  from setValue_returns[of ?opts w "Some base" "Some desc" rt] this
  obtain rt' w' where r: "setValue (Some base) (Some desc) ?opts (rt, w) = Inr (rt', w')"
    by auto
  then have w': "w' = snd (state_of (setValue_badge ?opts (rt, setValue_nodes (Some base) (Some desc) ?opts w)))"
    by (simp add: setValue_def state_of_def)
  have l: "textContent (labelElement w') = base"
    unfolding w' labelElement_def
    using setter_applied(1)[OF assms(2) c(1), of base]
    by (simp add: setValue_badge_frame setValue_nodes_parts assms(1) or_empty_def)
  let ?d = "set_textContent desc (descriptionNode w)"
  have d: "textContent (p_element (descriptionNode w')) = desc"
    unfolding w'
    using setter_applied(1)[OF assms(4) c(3), of desc]
    by (simp add: setValue_badge_frame setValue_nodes_parts or_empty_def setter_other_properties)
  let ?m = "(domNode w)\<lparr> p_element := assign_color '''' (p_element (domNode w)) \<rparr>"
  let ?cls = "join '' '' (classes_of ?opts)"
  have m: "\<not> disposed (set_className ?cls ?m)" "coherent (set_className ?cls ?m)"
    using assms(3) c(2) by (auto simp: coherent_def assign_defs setter_defs split: option.splits)
  have t: "title (element_of w') = path"
    unfolding w' element_of_def
    using setter_applied(3)[OF m, of path]
    by (simp add: setValue_badge_frame setValue_nodes_parts or_empty_def title_only_def)
  show ?thesis using r l d t by blast
qed

lemma setFile_applied:
  assumes "alive_plain w" and "coherent_widget w"
  shows "\<exists>rt' w'. setFile api fileUri provider userHome (rt, w) = Inr (rt', w') \<and>
         textContent (labelElement w') = paths_basename api (fsPath fileUri) \<and>
         textContent (p_element (descriptionNode w')) =
           (if paths_dirname api (fsPath fileUri) = '''' \<or> paths_dirname api (fsPath fileUri) = ''.''
            then ''''
            else getPathLabel api (paths_dirname api (fsPath fileUri)) provider userHome) \<and>
         title (element_of w') = fsPath fileUri"
proof -
  let ?desc = "if paths_dirname api (fsPath fileUri) = '''' \<or> paths_dirname api (fsPath fileUri) = ''.''
            then ''''
            else getPathLabel api (paths_dirname api (fsPath fileUri)) provider userHome"
  have eq: "setFile api fileUri provider userHome (rt, w) =
          setValue (Some (paths_basename api (fsPath fileUri))) (Some ?desc) (Some (title_only (fsPath fileUri))) (rt, w)"
    by (simp add: setFile_def Let_def)
  obtain n where n: "labelNode w = Plain n" "\<not> disposed n" "\<not> disposed (domNode w)"
    "\<not> disposed (descriptionNode w)"
    using assms(1) by (auto simp: alive_plain_def split: labelNodeKind.splits)
  show ?thesis
    unfolding eq
    using setValue_title_only[OF n assms(2), of "paths_basename api (fsPath fileUri)" ?desc "fsPath fileUri" rt]
    by blast
qed

text \<open>
  Claim C4, as amended. On a file label that has not been disposed, \<^verbatim>\<open>setFile\<close> returns
  and leaves the label with the basename of the path, the title with the full path, and
  the description with the label of the parent directory, or empty when
  \<^verbatim>\<open>paths.dirname\<close> gives the empty string or \<^verbatim>\<open>.\<close> for the parent. The constructor
  leaves the new widget so for every path.
\<close>

theorem setFile_shows_basename_parent_and_path:
  "(alive_plain w \<and> coherent_widget w \<longrightarrow>
      (\<exists>rt' w'. setFile api fileUri provider userHome (rt, w) = Inr (rt', w') \<and>
         textContent (labelElement w') = paths_basename api (fsPath fileUri) \<and>
         textContent (p_element (descriptionNode w')) =
           (if paths_dirname api (fsPath fileUri) = '''' \<or> paths_dirname api (fsPath fileUri) = ''.''
            then ''''
            else getPathLabel api (paths_dirname api (fsPath fileUri)) provider userHome) \<and>
         title (element_of w') = fsPath fileUri)) \<and>
   (\<exists>rt' w'. fst (new_FileLabel api container fileUri provider userHome rt0) = Inr (rt', w') \<and>
      textContent (labelElement w') = paths_basename api (fsPath fileUri) \<and>
      textContent (p_element (descriptionNode w')) =
        (if paths_dirname api (fsPath fileUri) = '''' \<or> paths_dirname api (fsPath fileUri) = ''.''
         then ''''
         else getPathLabel api (paths_dirname api (fsPath fileUri)) provider userHome) \<and>
      title (element_of w') = fsPath fileUri)"
proof -
  obtain rt1 w1 where c: "fst (new_IconLabel container None rt0) = (rt1, w1)"
    by (cases "fst (new_IconLabel container None rt0)")
  have a: "alive_plain w1" "coherent_widget w1"
    using new_IconLabel_alive[of container rt0] by (simp_all add: c)
  have "fst (new_FileLabel api container fileUri provider userHome rt0) =
          setFile api fileUri provider userHome (rt1, w1)"
    using c by (cases "new_IconLabel container None rt0") (simp add: new_FileLabel_def)
  then show ?thesis
    using setFile_applied[OF a, of api fileUri provider userHome rt1]
      setFile_applied[of w api fileUri provider userHome rt]
    by simp
qed

text \<open>
  The claim as stated fails: for a file whose parent is the root \<^verbatim>\<open>/\<close>, the description
  is the label of the root, not empty.
\<close>

theorem setFile_shows_root_parent:
  "paths_dirname example_labels ''/a.ts'' = ''/'' \<and>
   textContent (p_element (descriptionNode (snd (state_of example_root_file)))) = ''/''"
  using setFile_applied[OF example_widget_facts(2,3), of example_labels "\<lparr> fsPath = ''/a.ts'' \<rparr>" "()" "()"
          "fst example_widget"]
  by (auto simp: example_root_file_def example_labels_def state_of_def)

text \<open>The amended claim at the example widget and a file in \<^verbatim>\<open>/src\<close>.\<close>

theorem setFile_shows_basename_parent_and_path_witness:
  "alive_plain (snd example_widget) \<and> coherent_widget (snd example_widget) \<and>
   (\<exists>rt' w'. setFile example_labels \<lparr> fsPath = ''/src/main.ts'' \<rparr> () () example_widget = Inr (rt', w') \<and>
      textContent (labelElement w') = ''main.ts'' \<and>
      textContent (p_element (descriptionNode w')) = ''/src'' \<and>
      title (element_of w') = ''/src/main.ts'')"
  using setFile_shows_basename_parent_and_path
          [where w = "snd example_widget" and rt = "fst example_widget" and api = example_labels
             and fileUri = "\<lparr> fsPath = ''/src/main.ts'' \<rparr>" and provider = "()" and userHome = "()"]
        example_widget_facts(2,3)
  by (simp add: example_labels_def)

end
